theory Spec2Isabelle
  imports Complex_Main "HOL-Library.Log_Nat" "HOL-Library.AList"
begin

section \<open>Python values\<close>

text \<open>
  The two adapters (\<^verbatim>\<open>backend/integrations/hubspot.py\<close> and
  \<^verbatim>\<open>backend/integrations/notion.py\<close>) are Python. A Python \<^verbatim>\<open>str\<close> is a
  sequence of Unicode code points and is modelled as a list of natural numbers; a
  \<^verbatim>\<open>bytes\<close> object is a list of numbers below 256. Literals of the source are written
  with \<open>S\<close>, which maps an ASCII literal to its code points.
\<close>

type_synonym pystr = "nat list"
type_synonym pybytes = "nat list"

definition cp :: "char \<Rightarrow> nat" where
  "cp c = of_char c"

definition S :: "string \<Rightarrow> pystr" where
  "S s = map cp s"

text \<open>
  A Python \<^verbatim>\<open>float\<close> is an IEEE-754 double: \<open>Fin neg m e\<close> is the finite value
  \<open>(-1)^neg * m * 2^e\<close> (so \<open>Fin True 0 0\<close> is the negative zero).
\<close>

datatype pyfloat = Fin bool nat int | Inf bool | NaN

text \<open>
  The values that \<^verbatim>\<open>json.loads\<close> produces, which are all the values the adapters
  handle besides their own records. A \<^verbatim>\<open>dict\<close> keeps insertion order; its keys are
  strings.
\<close>

datatype pyval =
    PNone
  | PBool bool
  | PInt int
  | PFloat pyfloat
  | PStr pystr
  | PList "pyval list"
  | PDict "(pystr \<times> pyval) list"

text \<open>
  Exceptions. \<open>HTTPException status detail\<close> is FastAPI's; the others are built-in
  classes or classes of the standard library (\<open>Base64Error\<close> is
  \<^verbatim>\<open>binascii.Error\<close>) and of httpx (\<open>TransportError\<close>).
\<close>

datatype py_exc =
    HTTPException nat pyval
  | AttributeError
  | KeyError
  | TypeError
  | ValueError
  | OverflowError
  | OSError
  | JSONDecodeError
  | UnicodeDecodeError
  | UnicodeEncodeError
  | Base64Error
  | TransportError

text \<open>
  \<^verbatim>\<open>except (ValueError, TypeError)\<close> also catches the subclasses of
  \<^verbatim>\<open>ValueError\<close>.
\<close>

fun is_ValueError :: "py_exc \<Rightarrow> bool" where
  "is_ValueError ValueError = True"
| "is_ValueError JSONDecodeError = True"
| "is_ValueError UnicodeDecodeError = True"
| "is_ValueError UnicodeEncodeError = True"
| "is_ValueError Base64Error = True"
| "is_ValueError _ = False"

definition is_TypeError :: "py_exc \<Rightarrow> bool" where
  "is_TypeError e = (e = TypeError)"

text \<open>
  What the model takes from the platform rather than computing it: the \<^verbatim>\<open>repr\<close> of
  floats and containers, the Unicode tables behind \<^verbatim>\<open>str.capitalize\<close> and
  \<^verbatim>\<open>int\<close> on text outside ASCII, what \<^verbatim>\<open>datetime.fromisoformat\<close> makes of
  a string outside the format that every version documents, and the UTC offset (in
  seconds) of the server's local time zone at a given epoch second.
  Every theorem holds for every platform.
\<close>

record datetime =
  year :: int
  month :: int
  day :: int
  hour :: int
  minute :: int
  second :: int
  microsecond :: int
  tzinfo :: "int option"

record platform =
  py_repr :: "pyval \<Rightarrow> pystr"
  capitalize_unicode :: "pystr \<Rightarrow> pystr"
  int_unicode :: "pystr \<Rightarrow> int option"
  fromisoformat_more :: "pystr \<Rightarrow> datetime option"
  utcoffset :: "int \<Rightarrow> int"

section \<open>Built-in operations\<close>

text \<open>\<^verbatim>\<open>bool(v)\<close>, the test behind \<^verbatim>\<open>if v\<close>, \<^verbatim>\<open>not v\<close> and \<^verbatim>\<open>a or b\<close>.\<close>

fun truthy :: "pyval \<Rightarrow> bool" where
  "truthy PNone = False"
| "truthy (PBool b) = b"
| "truthy (PInt i) = (i \<noteq> 0)"
| "truthy (PFloat (Fin _ m _)) = (m \<noteq> 0)"
| "truthy (PFloat _) = True"
| "truthy (PStr s) = (s \<noteq> [])"
| "truthy (PList xs) = (xs \<noteq> [])"
| "truthy (PDict kvs) = (kvs \<noteq> [])"

text \<open>\<^verbatim>\<open>d.get(k, default)\<close> on a dict.\<close>

definition dict_get :: "(pystr \<times> pyval) list \<Rightarrow> pystr \<Rightarrow> pyval \<Rightarrow> pyval" where
  "dict_get kvs k dflt = (case map_of kvs k of None \<Rightarrow> dflt | Some v \<Rightarrow> v)"

text \<open>
  \<^verbatim>\<open>v.get(k, default)\<close> on any value: only a dict has the method.
\<close>

fun py_get :: "pyval \<Rightarrow> pystr \<Rightarrow> pyval \<Rightarrow> py_exc + pyval" where
  "py_get (PDict kvs) k dflt = Inr (dict_get kvs k dflt)"
| "py_get _ k dflt = Inl AttributeError"

text \<open>
  \<^verbatim>\<open>v[k]\<close> with a string key: a missing key of a dict is a \<^verbatim>\<open>KeyError\<close>; a
  string or list wants an integer index and the other values are not subscriptable,
  both a \<^verbatim>\<open>TypeError\<close>.
\<close>

fun py_subscript :: "pyval \<Rightarrow> pystr \<Rightarrow> py_exc + pyval" where
  "py_subscript (PDict kvs) k = (case map_of kvs k of None \<Rightarrow> Inl KeyError | Some v \<Rightarrow> Inr v)"
| "py_subscript _ k = Inl TypeError"

text \<open>\<^verbatim>\<open>v.values()\<close>: again a method of dicts only.\<close>

fun py_values :: "pyval \<Rightarrow> py_exc + pyval list" where
  "py_values (PDict kvs) = Inr (map snd kvs)"
| "py_values _ = Inl AttributeError"

text \<open>
  \<^verbatim>\<open>for x in v\<close>: a list yields its elements, a dict its keys, a string its
  characters; the other values are not iterable.
\<close>

fun py_iter :: "pyval \<Rightarrow> py_exc + pyval list" where
  "py_iter (PList xs) = Inr xs"
| "py_iter (PDict kvs) = Inr (map (\<lambda>kv. PStr (fst kv)) kvs)"
| "py_iter (PStr s) = Inr (map (\<lambda>c. PStr [c]) s)"
| "py_iter _ = Inl TypeError"

text \<open>Decimal digits of a natural number, and \<^verbatim>\<open>str\<close> of an \<^verbatim>\<open>int\<close>.\<close>

fun digits_of :: "nat \<Rightarrow> pystr" where
  "digits_of n = (if n < 10 then [48 + n] else digits_of (n div 10) @ [48 + n mod 10])"

definition str_of_int :: "int \<Rightarrow> pystr" where
  "str_of_int i = (if i < 0 then 45 # digits_of (nat (- i)) else digits_of (nat i))"

text \<open>
  \<^verbatim>\<open>str(v)\<close>, which is also what an f-string puts for \<^verbatim>\<open>{v}\<close>.
\<close>

fun py_str :: "platform \<Rightarrow> pyval \<Rightarrow> pystr" where
  "py_str E (PStr s) = s"
| "py_str E PNone = S ''None''"
| "py_str E (PBool b) = (if b then S ''True'' else S ''False'')"
| "py_str E (PInt i) = str_of_int i"
| "py_str E v = py_repr E v"

text \<open>
  \<^verbatim>\<open>s.strip()\<close> removes the characters with the Unicode white-space property
  from both ends.
\<close>

definition is_space :: "nat \<Rightarrow> bool" where
  "is_space c = ((9 \<le> c \<and> c \<le> 13) \<or> (28 \<le> c \<and> c \<le> 32) \<or> c = 133 \<or> c = 160
     \<or> c = 5760 \<or> (8192 \<le> c \<and> c \<le> 8202) \<or> c = 8232 \<or> c = 8233 \<or> c = 8239
     \<or> c = 8287 \<or> c = 12288)"

definition strip :: "pystr \<Rightarrow> pystr" where
  "strip s = rev (dropWhile is_space (rev (dropWhile is_space s)))"

text \<open>
  \<^verbatim>\<open>s.capitalize()\<close>: the first character in upper case and the rest in lower
  case. On ASCII text that is a shift of the letters; other text goes through the
  platform's tables.
\<close>

definition ascii_upper :: "nat \<Rightarrow> nat" where
  "ascii_upper c = (if 97 \<le> c \<and> c \<le> 122 then c - 32 else c)"

definition ascii_lower :: "nat \<Rightarrow> nat" where
  "ascii_lower c = (if 65 \<le> c \<and> c \<le> 90 then c + 32 else c)"

definition is_ascii :: "pystr \<Rightarrow> bool" where
  "is_ascii s = list_all (\<lambda>c. c < 128) s"

definition capitalize :: "platform \<Rightarrow> pystr \<Rightarrow> pystr" where
  "capitalize E s =
     (if is_ascii s
      then (case s of [] \<Rightarrow> [] | c # cs \<Rightarrow> ascii_upper c # map ascii_lower cs)
      else capitalize_unicode E s)"

text \<open>\<^verbatim>\<open>s.replace("Z", "+00:00")\<close>: every \<^verbatim>\<open>Z\<close> is replaced.\<close>

definition replace_Z :: "pystr \<Rightarrow> pystr" where
  "replace_Z s = concat (map (\<lambda>c. if c = 90 then S ''+00:00'' else [c]) s)"

text \<open>
  \<^verbatim>\<open>int(s)\<close> for a string, base 10: white space around, an optional sign, then
  digits, where single underscores may stand between digits. On an ASCII string the
  white space is that of C (\<^verbatim>\<open>\t\n\v\f\r\<close> and the space).
\<close>

definition is_digit :: "nat \<Rightarrow> bool" where
  "is_digit c = (48 \<le> c \<and> c \<le> 57)"

definition is_cspace :: "nat \<Rightarrow> bool" where
  "is_cspace c = ((9 \<le> c \<and> c \<le> 13) \<or> c = 32)"

text \<open>
  \<open>int_digits acc prev s\<close> reads the digits after the first one; \<open>prev\<close> tells that
  the character before was an underscore.
\<close>

fun int_digits :: "nat \<Rightarrow> bool \<Rightarrow> pystr \<Rightarrow> nat option" where
  "int_digits acc prev [] = (if prev then None else Some acc)"
| "int_digits acc prev (c # cs) =
     (if is_digit c then int_digits (10 * acc + (c - 48)) False cs
      else if c = 95 \<and> \<not> prev then int_digits acc True cs
      else None)"

definition int_unsigned :: "pystr \<Rightarrow> nat option" where
  "int_unsigned s =
     (case s of [] \<Rightarrow> None
      | c # cs \<Rightarrow> if is_digit c then int_digits (c - 48) False cs else None)"

definition int_ascii :: "pystr \<Rightarrow> int option" where
  "int_ascii s =
     (let t = rev (dropWhile is_cspace (rev (dropWhile is_cspace s))) in
      case t of [] \<Rightarrow> None
      | c # cs \<Rightarrow>
          if c = 45 then map_option (\<lambda>n. - int n) (int_unsigned cs)
          else if c = 43 then map_option int (int_unsigned cs)
          else map_option int (int_unsigned t))"

definition int_of_str :: "platform \<Rightarrow> pystr \<Rightarrow> py_exc + int" where
  "int_of_str E s =
     (case (if is_ascii s then int_ascii s else int_unicode E s) of
        None \<Rightarrow> Inl ValueError
      | Some i \<Rightarrow> Inr i)"

text \<open>
  \<^verbatim>\<open>int(v)\<close>: a float is truncated towards zero; \<^verbatim>\<open>int(nan)\<close> is a
  \<^verbatim>\<open>ValueError\<close> and \<^verbatim>\<open>int(inf)\<close> an \<^verbatim>\<open>OverflowError\<close>; \<^verbatim>\<open>None\<close>, lists and
  dicts are a \<^verbatim>\<open>TypeError\<close>.
\<close>

definition float_trunc :: "bool \<Rightarrow> nat \<Rightarrow> int \<Rightarrow> int" where
  "float_trunc neg m e =
     (let a = (if e \<ge> 0 then int m * 2 ^ nat e else int m div 2 ^ nat (- e))
      in if neg then - a else a)"

fun py_int :: "platform \<Rightarrow> pyval \<Rightarrow> py_exc + int" where
  "py_int E (PStr s) = int_of_str E s"
| "py_int E (PInt i) = Inr i"
| "py_int E (PBool b) = Inr (if b then 1 else 0)"
| "py_int E (PFloat (Fin neg m e)) = Inr (float_trunc neg m e)"
| "py_int E (PFloat (Inf _)) = Inl OverflowError"
| "py_int E (PFloat NaN) = Inl ValueError"
| "py_int E _ = Inl TypeError"

section \<open>Floating point\<close>

text \<open>
  \<open>round_half_even n d\<close> is the integer nearest to \<open>n / d\<close> (for \<open>d > 0\<close>), a tie
  going to the even one. \<open>double_of_ratio a d\<close> rounds the non-negative rational
  \<open>a / d\<close> to the nearest double \<open>m * 2^e\<close> (53 significant bits, the exponent not
  below that of the subnormal numbers), or gives \<open>None\<close> when the result is beyond the
  largest double.
\<close>

definition round_half_even :: "int \<Rightarrow> int \<Rightarrow> int" where
  "round_half_even n d =
     (let q = n div d; r = n mod d in
      if 2 * r < d then q
      else if 2 * r > d then q + 1
      else if even q then q else q + 1)"

definition double_of_ratio :: "nat \<Rightarrow> nat \<Rightarrow> (nat \<times> int) option" where
  "double_of_ratio a d =
     (if a = 0 then Some (0, 0)
      else
        let k = bitlen (int a) - bitlen (int d);
            fl = (if d * 2 ^ nat k \<le> a * 2 ^ nat (- k) then k else k - 1);
            e = max (fl - 52) (- 1074);
            m = nat (round_half_even (int a * 2 ^ nat (- e)) (int d * 2 ^ nat e))
        in if 971 < e \<or> (e = 971 \<and> 2 ^ 53 \<le> m) then None else Some (m, e))"

text \<open>
  \<^verbatim>\<open>float("...")\<close> of a decimal literal with digits \<open>n\<close> and decimal exponent
  \<open>x\<close>: too large a value is an infinity.
\<close>

definition float_of_decimal :: "bool \<Rightarrow> nat \<Rightarrow> int \<Rightarrow> pyfloat" where
  "float_of_decimal neg n x =
     (case (if 0 \<le> x then double_of_ratio (n * 10 ^ nat x) 1
            else double_of_ratio n (10 ^ nat (- x))) of
        None \<Rightarrow> Inf neg
      | Some (m, e) \<Rightarrow> Fin neg m e)"

text \<open>
  \<^verbatim>\<open>a / b\<close> on two integers, \<open>b\<close> positive: the correctly rounded quotient; one
  too large for a float is an \<^verbatim>\<open>OverflowError\<close>.
\<close>

definition int_truediv :: "int \<Rightarrow> nat \<Rightarrow> py_exc + pyfloat" where
  "int_truediv a b =
     (case double_of_ratio (nat \<bar>a\<bar>) b of
        None \<Rightarrow> Inl OverflowError
      | Some (m, e) \<Rightarrow> Inr (Fin (a < 0) m e))"

section \<open>The json module\<close>

subsection \<open>json.dumps\<close>

text \<open>
  \<^verbatim>\<open>json.dumps\<close> with its defaults: \<^verbatim>\<open>ensure_ascii\<close>, so that every character
  outside the printable ASCII range is written as an escape (one beyond the basic
  plane as a surrogate pair), the separators \<^verbatim>\<open>", "\<close> and \<^verbatim>\<open>": "\<close>, and
  \<^verbatim>\<open>NaN\<close>, \<^verbatim>\<open>Infinity\<close> for the floats that JSON does not have.
\<close>

definition hexdigit :: "nat \<Rightarrow> nat" where
  "hexdigit d = (if d < 10 then 48 + d else 87 + d)"

definition hex4 :: "nat \<Rightarrow> pystr" where
  "hex4 n = [hexdigit (n div 4096 mod 16), hexdigit (n div 256 mod 16),
             hexdigit (n div 16 mod 16), hexdigit (n mod 16)]"

definition escape_char :: "nat \<Rightarrow> pystr" where
  "escape_char c =
     (if c = 34 then [92, 34]
      else if c = 92 then [92, 92]
      else if c = 10 then [92, 110]
      else if c = 13 then [92, 114]
      else if c = 9 then [92, 116]
      else if c = 8 then [92, 98]
      else if c = 12 then [92, 102]
      else if 32 \<le> c \<and> c \<le> 126 then [c]
      else if c < 65536 then 92 # 117 # hex4 c
      else 92 # 117 # hex4 (55296 + (c - 65536) div 1024 mod 1024)
         @ 92 # 117 # hex4 (56320 + (c - 65536) mod 1024))"

definition dumps_str :: "pystr \<Rightarrow> pystr" where
  "dumps_str s = 34 # concat (map escape_char s) @ [34]"

fun join :: "pystr \<Rightarrow> pystr list \<Rightarrow> pystr" where
  "join sep [] = []"
| "join sep [x] = x"
| "join sep (x # y # ys) = x @ sep @ join sep (y # ys)"

fun json_dumps :: "platform \<Rightarrow> pyval \<Rightarrow> pystr" where
  "json_dumps E PNone = S ''null''"
| "json_dumps E (PBool b) = (if b then S ''true'' else S ''false'')"
| "json_dumps E (PInt i) = str_of_int i"
| "json_dumps E (PFloat NaN) = S ''NaN''"
| "json_dumps E (PFloat (Inf neg)) = (if neg then S ''-Infinity'' else S ''Infinity'')"
| "json_dumps E (PFloat (Fin neg m e)) = py_repr E (PFloat (Fin neg m e))"
| "json_dumps E (PStr s) = dumps_str s"
| "json_dumps E (PList xs) = S ''['' @ join (S '', '') (map (json_dumps E) xs) @ S '']''"
| "json_dumps E (PDict kvs) =
     S ''{'' @ join (S '', '') (map (\<lambda>kv. dumps_str (fst kv) @ S '': '' @ json_dumps E (snd kv)) kvs)
       @ S ''}''"

subsection \<open>json.loads\<close>

text \<open>
  The decoder of \<^verbatim>\<open>json.loads\<close> with its defaults (strict, no hooks), as the
  scanner of CPython reads a text: every failure is a \<^verbatim>\<open>JSONDecodeError\<close>. The
  functions take the text from the current position on and return the value with the
  text that follows it. The interpreter's limits (on the depth of nesting and on the
  length of an integer literal) are not part of the model.
\<close>

definition hexval :: "nat \<Rightarrow> nat option" where
  "hexval c =
     (if 48 \<le> c \<and> c \<le> 57 then Some (c - 48)
      else if 97 \<le> c \<and> c \<le> 102 then Some (c - 87)
      else if 65 \<le> c \<and> c \<le> 70 then Some (c - 55)
      else None)"

definition unhex4 :: "nat \<Rightarrow> nat \<Rightarrow> nat \<Rightarrow> nat \<Rightarrow> nat option" where
  "unhex4 a b c d =
     (case (hexval a, hexval b, hexval c, hexval d) of
        (Some w, Some x, Some y, Some z) \<Rightarrow> Some (((w * 16 + x) * 16 + y) * 16 + z)
      | _ \<Rightarrow> None)"

definition unescape :: "nat \<Rightarrow> nat option" where
  "unescape c =
     (if c = 34 \<or> c = 92 \<or> c = 47 then Some c
      else if c = 98 then Some 8
      else if c = 102 then Some 12
      else if c = 110 then Some 10
      else if c = 114 then Some 13
      else if c = 116 then Some 9
      else None)"

definition is_high_surrogate :: "nat \<Rightarrow> bool" where
  "is_high_surrogate c = (55296 \<le> c \<and> c \<le> 56319)"

definition is_low_surrogate :: "nat \<Rightarrow> bool" where
  "is_low_surrogate c = (56320 \<le> c \<and> c \<le> 57343)"

definition join_surrogates :: "nat \<Rightarrow> nat \<Rightarrow> nat" where
  "join_surrogates hi lo = 65536 + ((hi - 55296) * 1024 + (lo - 56320))"

definition put :: "nat \<Rightarrow> py_exc + pystr \<times> pystr \<Rightarrow> py_exc + pystr \<times> pystr" where
  "put c r = (case r of Inl e \<Rightarrow> Inl e | Inr (s, rest) \<Rightarrow> Inr (c # s, rest))"

text \<open>
  \<open>scanstring\<close> starts behind the opening quote. A high surrogate escape that is
  followed by a low surrogate escape (and at least one more character) stands for one
  character; any other surrogate escape stands for itself.
\<close>

fun scanstring :: "pystr \<Rightarrow> py_exc + pystr \<times> pystr" where
  "scanstring [] = Inl JSONDecodeError"
| "scanstring (c # cs) =
     (if c = 34 then Inr ([], cs)
      else if c = 92 then
        (case cs of
           [] \<Rightarrow> Inl JSONDecodeError
         | x # r \<Rightarrow>
             if x = 117 then
               (case r of
                  h1 # h2 # h3 # h4 # r4 \<Rightarrow>
                    (case unhex4 h1 h2 h3 h4 of
                       None \<Rightarrow> Inl JSONDecodeError
                     | Some u \<Rightarrow>
                         (case r4 of
                            b # v # g1 # g2 # g3 # g4 # g5 # r11 \<Rightarrow>
                              if is_high_surrogate u \<and> b = 92 \<and> v = 117 then
                                (case unhex4 g1 g2 g3 g4 of
                                   None \<Rightarrow> Inl JSONDecodeError
                                 | Some w \<Rightarrow>
                                     if is_low_surrogate w
                                     then put (join_surrogates u w) (scanstring (g5 # r11))
                                     else put u (scanstring r4))
                              else put u (scanstring r4)
                          | _ \<Rightarrow> put u (scanstring r4)))
                | _ \<Rightarrow> Inl JSONDecodeError)
             else
               (case unescape x of
                  None \<Rightarrow> Inl JSONDecodeError
                | Some y \<Rightarrow> put y (scanstring r)))
      else if c < 32 then Inl JSONDecodeError
      else put c (scanstring cs))"

definition is_ws :: "nat \<Rightarrow> bool" where
  "is_ws c = (c = 32 \<or> c = 9 \<or> c = 10 \<or> c = 13)"

definition skip_ws :: "pystr \<Rightarrow> pystr" where
  "skip_ws s = dropWhile is_ws s"

definition digits_value :: "pystr \<Rightarrow> nat" where
  "digits_value ds = foldl (\<lambda>a c. 10 * a + (c - 48)) 0 ds"

text \<open>
  A number: an optional minus, the integer part (a zero, or digits that do not start
  with one), then optionally a fraction (a point and digits) and an exponent; an
  \<^verbatim>\<open>e\<close> without digits behind it is not part of the number. With a fraction or
  an exponent the literal is a float, else an int.
\<close>

definition number_tail :: "bool \<Rightarrow> pystr \<Rightarrow> pystr \<Rightarrow> pyval \<times> pystr" where
  "number_tail neg ints rest =
     (let (frac, r1) =
            (case rest of
               d # f # r \<Rightarrow>
                 if d = 46 \<and> is_digit f
                 then (Some (takeWhile is_digit (f # r)), dropWhile is_digit (f # r))
                 else (None, rest)
             | _ \<Rightarrow> (None, rest));
          (ex, r2) =
            (case r1 of
               e # r \<Rightarrow>
                 if e = 101 \<or> e = 69 then
                   (let (eneg, r') =
                          (case r of
                             c # t \<Rightarrow> if c = 45 then (True, t) else if c = 43 then (False, t)
                                      else (False, r)
                           | [] \<Rightarrow> (False, r));
                        ds = takeWhile is_digit r'
                    in if ds = [] then (None, r1)
                       else (Some (if eneg then - int (digits_value ds) else int (digits_value ds)),
                             dropWhile is_digit r'))
                 else (None, r1)
             | [] \<Rightarrow> (None, r1))
      in if frac = None \<and> ex = None
         then (PInt (if neg then - int (digits_value ints) else int (digits_value ints)), r2)
         else (PFloat (float_of_decimal neg
                 (digits_value (ints @ (case frac of None \<Rightarrow> [] | Some f \<Rightarrow> f)))
                 ((case ex of None \<Rightarrow> 0 | Some x \<Rightarrow> x)
                    - int (length (case frac of None \<Rightarrow> [] | Some f \<Rightarrow> f)))), r2))"

definition match_number :: "pystr \<Rightarrow> py_exc + pyval \<times> pystr" where
  "match_number s =
     (let neg = (case s of c # _ \<Rightarrow> c = 45 | [] \<Rightarrow> False);
          s1 = (if neg then tl s else s)
      in case s1 of
           [] \<Rightarrow> Inl JSONDecodeError
         | c # cs \<Rightarrow>
             if c = 48 then Inr (number_tail neg [c] cs)
             else if 49 \<le> c \<and> c \<le> 57
             then Inr (number_tail neg (c # takeWhile is_digit cs) (dropWhile is_digit cs))
             else Inl JSONDecodeError)"

definition strip_prefix :: "pystr \<Rightarrow> pystr \<Rightarrow> pystr option" where
  "strip_prefix p s = (if take (length p) s = p then Some (drop (length p) s) else None)"

text \<open>The literals, and a number when the text starts with none of them.\<close>

definition scan_atom :: "pystr \<Rightarrow> py_exc + pyval \<times> pystr" where
  "scan_atom s =
     (if strip_prefix (S ''null'') s \<noteq> None then Inr (PNone, drop 4 s)
      else if strip_prefix (S ''true'') s \<noteq> None then Inr (PBool True, drop 4 s)
      else if strip_prefix (S ''false'') s \<noteq> None then Inr (PBool False, drop 5 s)
      else if strip_prefix (S ''NaN'') s \<noteq> None then Inr (PFloat NaN, drop 3 s)
      else if strip_prefix (S ''Infinity'') s \<noteq> None then Inr (PFloat (Inf False), drop 8 s)
      else if strip_prefix (S ''-Infinity'') s \<noteq> None then Inr (PFloat (Inf True), drop 9 s)
      else match_number s)"

lemma skip_ws_length: "length (skip_ws s) \<le> length s"
  by (simp add: skip_ws_def length_dropWhile_le)

lemma skip_ws_Cons_length: "skip_ws s = d # r \<Longrightarrow> length r < length s"
  using skip_ws_length [of s] by simp

text \<open>
  \<open>scan_once\<close> reads one value. \<open>parse_array\<close> stands at the start of an element and
  \<open>parse_object\<close> at the start of a key, each with the entries read so far; a key
  that comes again replaces the value of its first occurrence, as \<^verbatim>\<open>d[k] = v\<close>
  does. The tests on lengths always hold (see \<open>scan_once_shorter\<close>); they are there for
  the termination proof.
\<close>

function scan_once :: "pystr \<Rightarrow> py_exc + pyval \<times> pystr"
  and parse_array :: "pyval list \<Rightarrow> pystr \<Rightarrow> py_exc + pyval \<times> pystr"
  and parse_object :: "(pystr \<times> pyval) list \<Rightarrow> pystr \<Rightarrow> py_exc + pyval \<times> pystr"
where
  "scan_once [] = Inl JSONDecodeError"
| "scan_once (c # cs) =
     (if c = 34 then
        (case scanstring cs of Inl e \<Rightarrow> Inl e | Inr (s, r) \<Rightarrow> Inr (PStr s, r))
      else if c = 123 then
        (case skip_ws cs of
           [] \<Rightarrow> Inl JSONDecodeError
         | d # r \<Rightarrow> if d = 125 then Inr (PDict [], r) else parse_object [] (d # r))
      else if c = 91 then
        (case skip_ws cs of
           [] \<Rightarrow> Inl JSONDecodeError
         | d # r \<Rightarrow> if d = 93 then Inr (PList [], r) else parse_array [] (d # r))
      else scan_atom (c # cs))"
| "parse_array acc s =
     (case scan_once s of
        Inl e \<Rightarrow> Inl e
      | Inr (v, r) \<Rightarrow>
          (case skip_ws r of
             [] \<Rightarrow> Inl JSONDecodeError
           | d # r1 \<Rightarrow>
               if d = 93 then Inr (PList (acc @ [v]), r1)
               else if d = 44 \<and> length r1 < length s
               then parse_array (acc @ [v]) (skip_ws r1)
               else Inl JSONDecodeError))"
| "parse_object acc s =
     (case s of
        [] \<Rightarrow> Inl JSONDecodeError
      | q # ks \<Rightarrow>
          if q = 34 then
            (case scanstring ks of
               Inl e \<Rightarrow> Inl e
             | Inr (k, r) \<Rightarrow>
                 (case skip_ws r of
                    [] \<Rightarrow> Inl JSONDecodeError
                  | col # r1 \<Rightarrow>
                      if col = 58 \<and> length r1 < length s then
                        (case scan_once (skip_ws r1) of
                           Inl e \<Rightarrow> Inl e
                         | Inr (v, r2) \<Rightarrow>
                             (case skip_ws r2 of
                                [] \<Rightarrow> Inl JSONDecodeError
                              | d # r3 \<Rightarrow>
                                  if d = 125 then Inr (PDict (AList.update k v acc), r3)
                                  else if d = 44 \<and> length r3 < length s
                                  then parse_object (AList.update k v acc) (skip_ws r3)
                                  else Inl JSONDecodeError))
                      else Inl JSONDecodeError))
          else Inl JSONDecodeError)"
  by pat_completeness auto
termination
proof (relation "measures [\<lambda>x. case x of Inl s \<Rightarrow> length s
                              | Inr (Inl (a, s)) \<Rightarrow> length s
                              | Inr (Inr (a, s)) \<Rightarrow> length s,
                          \<lambda>x. case x of Inl s \<Rightarrow> 0 | Inr _ \<Rightarrow> Suc 0]", goal_cases)
  case 1
  show ?case by simp
next
  case (2 c cs d r)
  then show ?case using skip_ws_Cons_length [of cs d r] by simp
next
  case (3 c cs d r)
  then show ?case using skip_ws_Cons_length [of cs d r] by simp
next
  case (4 acc s)
  show ?case by simp
next
  case (5 acc s x v r d r1)
  then show ?case using skip_ws_length [of r1] by simp
next
  case (6 acc s q ks x k r col r1)
  then show ?case using skip_ws_length [of r1] by simp
next
  case (7 acc s q ks x k r col r1 y v r2 d r3)
  then show ?case using skip_ws_length [of r3] by simp
qed

text \<open>
  \<^verbatim>\<open>json.loads(s)\<close> for a string: a byte order mark is refused, white space may
  stand before and behind the value, and nothing else may follow it.
\<close>

definition json_loads :: "pystr \<Rightarrow> py_exc + pyval" where
  "json_loads s =
     (if s \<noteq> [] \<and> hd s = 65279 then Inl JSONDecodeError
      else case scan_once (skip_ws s) of
             Inl e \<Rightarrow> Inl e
           | Inr (v, r) \<Rightarrow> if skip_ws r = [] then Inr v else Inl JSONDecodeError)"

section \<open>base64 and UTF-8\<close>

text \<open>
  \<open>consR x r\<close> puts \<open>x\<close> in front of the result of a decoder that may have failed.
\<close>

definition consR :: "'a \<Rightarrow> 'e + 'a list \<Rightarrow> 'e + 'a list" where
  "consR x r = (case r of Inl e \<Rightarrow> Inl e | Inr xs \<Rightarrow> Inr (x # xs))"

text \<open>The standard alphabet: the character of a six-bit value and back.\<close>

definition b64_char :: "nat \<Rightarrow> nat" where
  "b64_char v =
     (if v < 26 then 65 + v
      else if v < 52 then 71 + v
      else if v < 62 then v - 4
      else if v = 62 then 43 else 47)"

definition b64_val :: "nat \<Rightarrow> nat option" where
  "b64_val c =
     (if 65 \<le> c \<and> c \<le> 90 then Some (c - 65)
      else if 97 \<le> c \<and> c \<le> 122 then Some (c - 71)
      else if 48 \<le> c \<and> c \<le> 57 then Some (c + 4)
      else if c = 43 then Some 62
      else if c = 47 then Some 63
      else None)"

text \<open>\<^verbatim>\<open>base64.b64encode\<close>: three bytes make four characters; the end is padded.\<close>

fun b64encode :: "pybytes \<Rightarrow> pybytes" where
  "b64encode [] = []"
| "b64encode [a] = [b64_char (a div 4), b64_char (a mod 4 * 16), 61, 61]"
| "b64encode [a, b] =
     [b64_char (a div 4), b64_char (a mod 4 * 16 + b div 16), b64_char (b mod 16 * 4), 61]"
| "b64encode (a # b # c # bs) =
     b64_char (a div 4) # b64_char (a mod 4 * 16 + b div 16)
       # b64_char (b mod 16 * 4 + c div 64) # b64_char (c mod 64) # b64encode bs"

text \<open>
  \<^verbatim>\<open>base64.urlsafe_b64encode\<close> writes \<^verbatim>\<open>-\<close> and \<^verbatim>\<open>_\<close> for \<^verbatim>\<open>+\<close> and
  \<^verbatim>\<open>/\<close>.
\<close>

definition urlsafe_b64encode :: "pybytes \<Rightarrow> pybytes" where
  "urlsafe_b64encode bs =
     map (\<lambda>c. if c = 43 then 45 else if c = 47 then 95 else c) (b64encode bs)"

text \<open>
  \<^verbatim>\<open>binascii.a2b_base64\<close>, not strict: \<open>q\<close> is the position in the current group
  of four, \<open>left\<close> the bits left over from the character before and \<open>pads\<close> the
  padding seen since the last character of the alphabet. Characters outside the
  alphabet are skipped; padding that completes a group ends the input; an incomplete
  group at the end is an error.
\<close>

fun a2b_base64 :: "nat \<Rightarrow> nat \<Rightarrow> nat \<Rightarrow> pybytes \<Rightarrow> py_exc + pybytes" where
  "a2b_base64 q left pads [] = (if q = 0 then Inr [] else Inl Base64Error)"
| "a2b_base64 q left pads (c # cs) =
     (if c = 61 then
        (if 2 \<le> q \<and> 4 \<le> q + (pads + 1) then Inr []
         else a2b_base64 q left (if 2 \<le> q then pads + 1 else pads) cs)
      else
        (case b64_val c of
           None \<Rightarrow> a2b_base64 q left pads cs
         | Some v \<Rightarrow>
             if q = 0 then a2b_base64 1 v 0 cs
             else if q = 1 then consR (left * 4 + v div 16) (a2b_base64 2 (v mod 16) 0 cs)
             else if q = 2 then consR (left * 16 + v div 4) (a2b_base64 3 (v mod 4) 0 cs)
             else consR (left * 64 + v) (a2b_base64 0 0 0 cs)))"

text \<open>
  \<^verbatim>\<open>base64.urlsafe_b64decode\<close> of a string: the string must be ASCII; \<^verbatim>\<open>-\<close>
  and \<^verbatim>\<open>_\<close> are read as \<^verbatim>\<open>+\<close> and \<^verbatim>\<open>/\<close>.
\<close>

definition urlsafe_b64decode :: "pystr \<Rightarrow> py_exc + pybytes" where
  "urlsafe_b64decode s =
     (if is_ascii s
      then a2b_base64 0 0 0 (map (\<lambda>c. if c = 45 then 43 else if c = 95 then 47 else c) s)
      else Inl ValueError)"

text \<open>\<^verbatim>\<open>s.encode()\<close>: UTF-8; a surrogate cannot be encoded.\<close>

fun utf8_encode :: "pystr \<Rightarrow> py_exc + pybytes" where
  "utf8_encode [] = Inr []"
| "utf8_encode (c # cs) =
     (if c < 128 then consR c (utf8_encode cs)
      else if c < 2048 then
        consR (192 + c div 64) (consR (128 + c mod 64) (utf8_encode cs))
      else if c < 65536 then
        (if 55296 \<le> c \<and> c \<le> 57343 then Inl UnicodeEncodeError
         else consR (224 + c div 4096) (consR (128 + c div 64 mod 64)
                (consR (128 + c mod 64) (utf8_encode cs))))
      else if c < 1114112 then
        consR (240 + c div 262144) (consR (128 + c div 4096 mod 64)
          (consR (128 + c div 64 mod 64) (consR (128 + c mod 64) (utf8_encode cs))))
      else Inl UnicodeEncodeError)"

text \<open>
  \<^verbatim>\<open>b.decode()\<close>: strict UTF-8, which refuses overlong forms, surrogates and
  values beyond the last code point.
\<close>

definition is_cont :: "nat \<Rightarrow> bool" where
  "is_cont b = (128 \<le> b \<and> b < 192)"

fun utf8_decode :: "pybytes \<Rightarrow> py_exc + pystr" where
  "utf8_decode [] = Inr []"
| "utf8_decode (a # r) =
     (if a < 128 then consR a (utf8_decode r)
      else if 194 \<le> a \<and> a \<le> 223 then
        (case r of
           b # r1 \<Rightarrow>
             if is_cont b then consR ((a - 192) * 64 + (b - 128)) (utf8_decode r1)
             else Inl UnicodeDecodeError
         | _ \<Rightarrow> Inl UnicodeDecodeError)
      else if 224 \<le> a \<and> a \<le> 239 then
        (case r of
           b # c # r2 \<Rightarrow>
             if is_cont b \<and> is_cont c \<and> (a \<noteq> 224 \<or> 160 \<le> b) \<and> (a \<noteq> 237 \<or> b < 160)
             then consR (((a - 224) * 64 + (b - 128)) * 64 + (c - 128)) (utf8_decode r2)
             else Inl UnicodeDecodeError
         | _ \<Rightarrow> Inl UnicodeDecodeError)
      else if 240 \<le> a \<and> a \<le> 244 then
        (case r of
           b # c # d # r3 \<Rightarrow>
             if is_cont b \<and> is_cont c \<and> is_cont d \<and> (a \<noteq> 240 \<or> 144 \<le> b)
                \<and> (a \<noteq> 244 \<or> b < 144)
             then consR ((((a - 240) * 64 + (b - 128)) * 64 + (c - 128)) * 64 + (d - 128))
                    (utf8_decode r3)
             else Inl UnicodeDecodeError
         | _ \<Rightarrow> Inl UnicodeDecodeError)
      else Inl UnicodeDecodeError)"

section \<open>datetime\<close>

text \<open>
  A \<open>datetime\<close> holds the fields of a date and a time of day; \<open>tzinfo\<close> is
  \<open>None\<close> for a naive value and otherwise the offset from UTC in microseconds.
  \<open>civil_from_days\<close> gives year, month and day of a day number counted from
  1970-01-01, in the proleptic Gregorian calendar.
\<close>

definition civil_from_days :: "int \<Rightarrow> int \<times> int \<times> int" where
  "civil_from_days z0 =
     (let z = z0 + 719468;
          era = z div 146097;
          doe = z - era * 146097;
          yoe = (doe - doe div 1460 + doe div 36524 - doe div 146096) div 365;
          doy = doe - (365 * yoe + yoe div 4 - yoe div 100);
          mp = (5 * doy + 2) div 153;
          d = doy - (153 * mp + 2) div 5 + 1;
          m = (if mp < 10 then mp + 3 else mp - 9)
      in (yoe + era * 400 + (if m \<le> 2 then 1 else 0), m, d))"

definition is_leap :: "int \<Rightarrow> bool" where
  "is_leap y = (y mod 4 = 0 \<and> (y mod 100 \<noteq> 0 \<or> y mod 400 = 0))"

definition days_in_month :: "int \<Rightarrow> int \<Rightarrow> int" where
  "days_in_month y m =
     (if m = 2 then (if is_leap y then 29 else 28)
      else if m = 4 \<or> m = 6 \<or> m = 9 \<or> m = 11 then 30 else 31)"

text \<open>
  The seconds and microseconds of a float time stamp, as \<^verbatim>\<open>fromtimestamp\<close> takes
  them: the fraction is multiplied by a million in floating point and rounded to an
  integer, a tie going to the even one. The seconds must fit the 64-bit
  \<^verbatim>\<open>time_t\<close>.
\<close>

definition timeval_of_float :: "pyfloat \<Rightarrow> py_exc + int \<times> int" where
  "timeval_of_float f =
     (case f of
        NaN \<Rightarrow> Inl ValueError
      | Inf _ \<Rightarrow> Inl OverflowError
      | Fin neg m e \<Rightarrow>
          (let intpart = float_trunc neg m e;
               u = (if 0 \<le> e then 0
                    else case double_of_ratio (m mod 2 ^ nat (- e) * 1000000) (2 ^ nat (- e)) of
                           None \<Rightarrow> 0
                         | Some (m2, e2) \<Rightarrow>
                             round_half_even (int m2 * 2 ^ nat e2) (2 ^ nat (- e2)));
               us = (if neg then - u else u);
               sec = (if 1000000 \<le> us then intpart + 1 else if us < 0 then intpart - 1
                      else intpart);
               usec = (if 1000000 \<le> us then us - 1000000 else if us < 0 then us + 1000000
                       else us)
           in if - (2 ^ 63) \<le> sec \<and> sec < 2 ^ 63 then Inr (sec, usec) else Inl OverflowError))"

text \<open>
  \<^verbatim>\<open>datetime.fromtimestamp(t)\<close> without a time zone: the naive local time of the
  instant (CPython on Linux). The C library fails when the year does not fit an
  \<^verbatim>\<open>int\<close> (an \<^verbatim>\<open>OSError\<close>); a year outside 1 to 9999, at the instant or a day
  before it (where the search for a repeated hour looks), is a \<^verbatim>\<open>ValueError\<close>.
\<close>

definition local_year :: "platform \<Rightarrow> int \<Rightarrow> int" where
  "local_year E t = fst (civil_from_days ((t + utcoffset E t) div 86400))"

definition fromtimestamp :: "platform \<Rightarrow> pyfloat \<Rightarrow> py_exc + datetime" where
  "fromtimestamp E f =
     (case timeval_of_float f of
        Inl e \<Rightarrow> Inl e
      | Inr (t, us) \<Rightarrow>
          (let lt = t + utcoffset E t;
               ymd = civil_from_days (lt div 86400);
               sod = lt mod 86400
           in if fst ymd - 1900 < - (2 ^ 31) \<or> 2 ^ 31 \<le> fst ymd - 1900 then Inl OSError
              else if fst ymd < 1 \<or> 9999 < fst ymd
                      \<or> local_year E (t - 86400) < 1 \<or> 9999 < local_year E (t - 86400)
              then Inl ValueError
              else Inr \<lparr>year = fst ymd, month = fst (snd ymd), day = snd (snd ymd),
                        hour = sod div 3600, minute = sod mod 3600 div 60,
                        second = sod mod 60, microsecond = us, tzinfo = None\<rparr>))"

text \<open>
  \<^verbatim>\<open>datetime.fromisoformat\<close>. The format that every version documents is
  \<^verbatim>\<open>YYYY-MM-DD[*HH[:MM[:SS[.fff[fff]]]][+HH:MM[:SS[.ffffff]]]]\<close>, where \<^verbatim>\<open>*\<close>
  is any one character; \<open>iso_datetime\<close> reads it. What becomes of any other
  string is the platform's (newer versions read more forms of ISO 8601); a string
  that neither reads is a \<^verbatim>\<open>ValueError\<close>.
\<close>

definition digits2 :: "pystr \<Rightarrow> (int \<times> pystr) option" where
  "digits2 s =
     (case s of
        a # b # r \<Rightarrow>
          if is_digit a \<and> is_digit b then Some (int ((a - 48) * 10 + (b - 48)), r) else None
      | _ \<Rightarrow> None)"

definition iso_date :: "pystr \<Rightarrow> (int \<times> int \<times> int) option" where
  "iso_date s =
     (if length s = 10 \<and> list_all is_digit (take 4 s) \<and> s ! 4 = 45
         \<and> list_all is_digit (take 2 (drop 5 s)) \<and> s ! 7 = 45
         \<and> list_all is_digit (drop 8 s)
      then
        (let y = int (digits_value (take 4 s));
             m = int (digits_value (take 2 (drop 5 s)));
             d = int (digits_value (drop 8 s))
         in if 1 \<le> y \<and> 1 \<le> m \<and> m \<le> 12 \<and> 1 \<le> d \<and> d \<le> days_in_month y m
            then Some (y, m, d) else None)
      else None)"

definition iso_fraction :: "pystr \<Rightarrow> int option" where
  "iso_fraction f =
     (if list_all is_digit f \<and> length f = 3 then Some (int (digits_value f) * 1000)
      else if list_all is_digit f \<and> length f = 6 then Some (int (digits_value f))
      else None)"

definition iso_hms :: "pystr \<Rightarrow> (int \<times> int \<times> int \<times> int) option" where
  "iso_hms s =
     (case digits2 s of
        None \<Rightarrow> None
      | Some (h, r) \<Rightarrow>
          if 24 \<le> h then None
          else if r = [] then Some (h, 0, 0, 0)
          else if hd r \<noteq> 58 then None
          else
            (case digits2 (tl r) of
               None \<Rightarrow> None
             | Some (mi, r2) \<Rightarrow>
                 if 60 \<le> mi then None
                 else if r2 = [] then Some (h, mi, 0, 0)
                 else if hd r2 \<noteq> 58 then None
                 else
                   (case digits2 (tl r2) of
                      None \<Rightarrow> None
                    | Some (se, r4) \<Rightarrow>
                        if 60 \<le> se then None
                        else if r4 = [] then Some (h, mi, se, 0)
                        else if hd r4 \<noteq> 46 then None
                        else map_option (\<lambda>us. (h, mi, se, us)) (iso_fraction (tl r4)))))"

definition iso_offset :: "pystr \<Rightarrow> int option" where
  "iso_offset z =
     (case z of
        [] \<Rightarrow> None
      | sg # tz \<Rightarrow>
          if (length tz = 5 \<or> length tz = 8 \<or> length tz = 15) then
            (case iso_hms tz of
               None \<Rightarrow> None
             | Some (h, mi, se, us) \<Rightarrow>
                 Some ((if sg = 45 then - 1 else 1) * (((h * 3600 + mi * 60 + se) * 1000000) + us)))
          else None)"

definition iso_datetime :: "pystr \<Rightarrow> datetime option" where
  "iso_datetime s =
     (case iso_date (take 10 s) of
        None \<Rightarrow> None
      | Some (y, m, d) \<Rightarrow>
          if length s = 10 then
            Some \<lparr>year = y, month = m, day = d, hour = 0, minute = 0, second = 0,
                  microsecond = 0, tzinfo = None\<rparr>
          else
            (let t = drop 11 s;
                 tm = takeWhile (\<lambda>c. c \<noteq> 43 \<and> c \<noteq> 45) t;
                 z = dropWhile (\<lambda>c. c \<noteq> 43 \<and> c \<noteq> 45) t
             in case iso_hms tm of
                  None \<Rightarrow> None
                | Some (h, mi, se, us) \<Rightarrow>
                    if z = [] then
                      Some \<lparr>year = y, month = m, day = d, hour = h, minute = mi, second = se,
                            microsecond = us, tzinfo = None\<rparr>
                    else
                      (case iso_offset z of
                         None \<Rightarrow> None
                       | Some off \<Rightarrow>
                           Some \<lparr>year = y, month = m, day = d, hour = h, minute = mi,
                                 second = se, microsecond = us, tzinfo = Some off\<rparr>)))"

definition fromisoformat :: "platform \<Rightarrow> pystr \<Rightarrow> py_exc + datetime" where
  "fromisoformat E s =
     (case iso_datetime s of
        Some d \<Rightarrow> Inr d
      | None \<Rightarrow>
          (case fromisoformat_more E s of
             Some d \<Rightarrow> Inr d
           | None \<Rightarrow> Inl ValueError))"

section \<open>The collaborators\<close>

text \<open>
  \<open>andthen m f\<close> goes on with \<open>f\<close> when \<open>m\<close> returned, and raises what \<open>m\<close>
  raised.
\<close>

definition andthen :: "'e + 'a \<Rightarrow> ('a \<Rightarrow> 'e + 'b) \<Rightarrow> 'e + 'b" where
  "andthen m f = (case m of Inl e \<Rightarrow> Inl e | Inr x \<Rightarrow> f x)"

subsection \<open>The store\<close>

text \<open>
  \<^verbatim>\<open>MockRedisClient\<close> (hubspot.py lines 19 to 31, notion.py lines 30 to 42): a dict
  from keys to values. \<^verbatim>\<open>add_key_value_redis\<close> ignores \<^verbatim>\<open>expire\<close>. Each module
  has an instance of its own.
\<close>

type_synonym store = "pystr \<rightharpoonup> pystr"

definition add_key_value_redis :: "store \<Rightarrow> pystr \<Rightarrow> pystr \<Rightarrow> nat option \<Rightarrow> store" where
  "add_key_value_redis store key val expire = store(key \<mapsto> val)"

definition get_value_redis :: "store \<Rightarrow> pystr \<Rightarrow> pystr option" where
  "get_value_redis store key = store key"

definition delete_key_redis :: "store \<Rightarrow> pystr \<Rightarrow> store" where
  "delete_key_redis store key = (if key \<in> dom store then store(key := None) else store)"

subsection \<open>Requests, configuration and the HTTP client\<close>

text \<open>
  The incoming request with its query parameters; \<open>query_get\<close> is
  \<^verbatim>\<open>request.query_params.get(k)\<close>, a string or \<^verbatim>\<open>None\<close>.
\<close>

record request =
  query_params :: "pystr \<rightharpoonup> pystr"

definition query_get :: "request \<Rightarrow> pystr \<Rightarrow> pyval" where
  "query_get request k = (case query_params request k of None \<Rightarrow> PNone | Some s \<Rightarrow> PStr s)"

text \<open>
  The module constants read from the environment (a string, or \<^verbatim>\<open>None\<close> when
  \<^verbatim>\<open>os.getenv\<close> finds nothing and has no default).
\<close>

record config =
  CLIENT_ID :: pyval
  CLIENT_SECRET :: pyval
  REDIRECT_URI :: pyval

text \<open>
  The httpx client is a function from the request sent to what comes back: an
  exception, or a response with its status and with what \<^verbatim>\<open>response.json()\<close>
  gives (which may raise as well).
\<close>

datatype http_payload = NoPayload | FormData "(pystr \<times> pyval) list" | JsonData pyval

record http_request =
  http_method :: pystr
  http_url :: pystr
  http_headers :: "(pystr \<times> pystr) list"
  http_params :: "(pystr \<times> pyval) list"
  http_payload :: http_payload

record http_response =
  status_code :: int
  json_body :: "py_exc + pyval"

type_synonym http_client = "http_request \<Rightarrow> py_exc + http_response"

datatype html_response = HTMLResponse pystr

subsection \<open>The common item\<close>

text \<open>
  Modelled from the spec: \<^verbatim>\<open>IntegrationItem\<close> (integrations/integration_item.py is
  not among the sources), a plain record of the fields that the adapters pass to its
  constructor. The fields hold what they are given: the type and the name are Python
  values, since the adapters pass what the provider sent.
\<close>

record integration_item =
  item_id :: pystr
  item_type :: pyval
  name :: pyval
  creation_time :: "datetime option"
  last_modified_time :: "datetime option"
  url :: "pystr option"
  visibility :: bool

text \<open>
  A \<^verbatim>\<open>for\<close> loop that appends the item made of each element: an exception ends
  the loop and leaves the items appended so far.
\<close>

fun append_items ::
  "(pyval \<Rightarrow> py_exc + integration_item) \<Rightarrow> pyval list \<Rightarrow> integration_item list
     \<Rightarrow> py_exc option \<times> integration_item list" where
  "append_items f [] items = (None, items)"
| "append_items f (x # xs) items =
     (case f x of
        Inl e \<Rightarrow> (Some e, items)
      | Inr item \<Rightarrow> append_items f xs (items @ [item]))"

text \<open>
  The state of both adapters (hubspot.py line 42 and 61, notion.py line 53 and 77):
  \<^verbatim>\<open>json.loads(base64.urlsafe_b64decode(encoded_state).decode())\<close>.
\<close>

fun decode_state :: "pyval \<Rightarrow> py_exc + pyval" where
  "decode_state (PStr encoded_state) =
     andthen (urlsafe_b64decode encoded_state) (\<lambda>b. andthen (utf8_decode b) json_loads)"
| "decode_state _ = Inl TypeError"

section \<open>hubspot.py\<close>

definition SCOPE_hubspot :: pystr where
  "SCOPE_hubspot =
     S ''crm.objects.contacts.read crm.objects.companies.read crm.objects.deals.read oauth''"

definition hubspot_state_key :: "platform \<Rightarrow> pyval \<Rightarrow> pyval \<Rightarrow> pystr" where
  "hubspot_state_key E org_id user_id =
     S ''hubspot_state:'' @ py_str E org_id @ S '':'' @ py_str E user_id"

definition hubspot_tokens_key :: "platform \<Rightarrow> pyval \<Rightarrow> pyval \<Rightarrow> pystr" where
  "hubspot_tokens_key E org_id user_id =
     S ''hubspot_tokens:'' @ py_str E org_id @ S '':'' @ py_str E user_id"

text \<open>
  \<^verbatim>\<open>authorize_hubspot\<close> (lines 36 to 51). \<open>token\<close> is what
  \<^verbatim>\<open>secrets.token_urlsafe(32)\<close> returned.
\<close>

definition authorize_hubspot ::
  "platform \<Rightarrow> config \<Rightarrow> pystr \<Rightarrow> pystr \<Rightarrow> pystr \<Rightarrow> store \<Rightarrow> (py_exc + pystr) \<times> store" where
  "authorize_hubspot E cfg token user_id org_id store =
     (let state_data = PDict [(S ''state'', PStr token), (S ''user_id'', PStr user_id),
                              (S ''org_id'', PStr org_id)]
      in case andthen (utf8_encode (json_dumps E state_data))
                (\<lambda>b. utf8_decode (urlsafe_b64encode b)) of
           Inl e \<Rightarrow> (Inl e, store)
         | Inr encoded_state \<Rightarrow>
             (Inr (S ''https://app.hubspot.com/oauth/authorize''
                   @ S ''?client_id='' @ py_str E (CLIENT_ID cfg)
                   @ S ''&redirect_uri='' @ py_str E (REDIRECT_URI cfg)
                   @ S ''&scope='' @ SCOPE_hubspot
                   @ S ''&state='' @ encoded_state),
              add_key_value_redis store (hubspot_state_key E (PStr org_id) (PStr user_id))
                encoded_state (Some 600)))"

definition hubspot_success_page :: html_response where
  \<open>hubspot_success_page = HTMLResponse (concat
     [[10], S ''  <html>'', [10], S ''    <head>'', [10], S ''      <script>'', [10],
      S ''        window.opener.postMessage("hubspot-auth-success", "*");'', [10],
      S ''        window.close();'', [10], S ''      </script>'', [10], S ''    </head>'', [10],
      S ''    <body>'', [10],
      S ''      <p>HubSpot authentication successful. You can close this window.</p>'', [10],
      S ''    </body>'', [10], S ''  </html>'', [10]])\<close>

definition hubspot_token_request :: "config \<Rightarrow> pyval \<Rightarrow> http_request" where
  "hubspot_token_request cfg code =
     \<lparr>http_method = S ''POST'', http_url = S ''https://api.hubspot.com/oauth/v1/token'',
      http_headers = [], http_params = [],
      http_payload = FormData
        [(S ''grant_type'', PStr (S ''authorization_code'')),
         (S ''client_id'', CLIENT_ID cfg),
         (S ''client_secret'', CLIENT_SECRET cfg),
         (S ''redirect_uri'', REDIRECT_URI cfg),
         (S ''code'', code)]\<rparr>"

text \<open>
  \<^verbatim>\<open>oauth2callback_hubspot\<close> (lines 53 to 101). The result is what the handler
  raises or returns, with the store it leaves. The comparison of the state with the
  stored one stands in the source as a comment only (lines 65 to 68), so it is not
  part of the function.
\<close>

definition oauth2callback_hubspot ::
  "platform \<Rightarrow> config \<Rightarrow> http_client \<Rightarrow> request \<Rightarrow> store
     \<Rightarrow> (py_exc + html_response) \<times> store" where
  "oauth2callback_hubspot E cfg client request store =
     (if truthy (query_get request (S ''error''))
      then (Inl (HTTPException 400 (query_get request (S ''error''))), store)
      else
        let code = query_get request (S ''code'');
            encoded_state = query_get request (S ''state'')
        in if \<not> truthy code \<or> \<not> truthy encoded_state
           then (Inl (HTTPException 400 (PStr (S ''Missing code or state''))), store)
           else
             (case decode_state encoded_state of
                Inl e \<Rightarrow> (Inl (HTTPException 400 (PStr (S ''Invalid state''))), store)
              | Inr state_data \<Rightarrow>
                  (case client (hubspot_token_request cfg code) of
                     Inl e \<Rightarrow> (Inl e, store)
                   | Inr response \<Rightarrow>
                       if status_code response \<noteq> 200
                       then (Inl (HTTPException 400
                                   (PStr (S ''Failed to exchange code for tokens''))), store)
                       else
                         (case json_body response of
                            Inl e \<Rightarrow> (Inl e, store)
                          | Inr token_info \<Rightarrow>
                              (case py_subscript state_data (S ''org_id'') of
                                 Inl e \<Rightarrow> (Inl e, store)
                               | Inr org_id \<Rightarrow>
                                   (case py_subscript state_data (S ''user_id'') of
                                      Inl e \<Rightarrow> (Inl e, store)
                                    | Inr user_id \<Rightarrow>
                                        (Inr hubspot_success_page,
                                         add_key_value_redis store
                                           (hubspot_tokens_key E org_id user_id)
                                           (json_dumps E token_info) None)))))))"

text \<open>\<^verbatim>\<open>get_hubspot_credentials\<close> (lines 103 to 108).\<close>

definition get_hubspot_credentials :: "platform \<Rightarrow> store \<Rightarrow> pystr \<Rightarrow> pystr \<Rightarrow> py_exc + pyval" where
  "get_hubspot_credentials E store user_id org_id =
     (case get_value_redis store (hubspot_tokens_key E (PStr org_id) (PStr user_id)) of
        None \<Rightarrow> Inl (HTTPException 401 (PStr (S ''No credentials found'')))
      | Some credentials_str \<Rightarrow>
          if credentials_str = [] then Inl (HTTPException 401 (PStr (S ''No credentials found'')))
          else json_loads credentials_str)"

text \<open>
  \<^verbatim>\<open>create_integration_item_metadata_object\<close> of hubspot.py (lines 110 to 156).
  \<open>hubspot_name\<close> is the choice of the name (lines 118 to 127) and
  \<open>hubspot_timestamp\<close> the parsing of one time stamp (lines 133 to 137 and 139 to
  143), where \<^verbatim>\<open>except (ValueError, TypeError)\<close> leaves the time stamp \<^verbatim>\<open>None\<close>.
\<close>

definition hubspot_name :: "platform \<Rightarrow> pyval \<Rightarrow> pystr \<Rightarrow> py_exc + pyval" where
  "hubspot_name E properties itype =
     (if itype = S ''contact'' then
        andthen (py_get properties (S ''firstname'') (PStr [])) (\<lambda>first_name.
        andthen (py_get properties (S ''lastname'') (PStr [])) (\<lambda>last_name.
          if strip (py_str E first_name @ S '' '' @ py_str E last_name) \<noteq> []
          then Inr (PStr (strip (py_str E first_name @ S '' '' @ py_str E last_name)))
          else py_get properties (S ''email'') (PStr (S ''Unknown Contact''))))
      else if itype = S ''company'' then
        py_get properties (S ''name'') (PStr (S ''Unknown Company''))
      else if itype = S ''deal'' then
        py_get properties (S ''dealname'') (PStr (S ''Unknown Deal''))
      else Inr (PStr (S ''Unknown Item'')))"

definition hubspot_timestamp :: "platform \<Rightarrow> pyval \<Rightarrow> pystr \<Rightarrow> py_exc + datetime option" where
  "hubspot_timestamp E properties key =
     andthen (py_get properties key PNone) (\<lambda>v.
       if truthy v then
         (case andthen (py_subscript properties key) (\<lambda>x.
                 andthen (py_int E x) (\<lambda>n.
                 andthen (int_truediv n 1000) (fromtimestamp E))) of
            Inl e \<Rightarrow> if is_ValueError e \<or> is_TypeError e then Inr None else Inl e
          | Inr d \<Rightarrow> Inr (Some d))
       else Inr None)"

definition create_integration_item_metadata_object_hubspot ::
  "platform \<Rightarrow> pyval \<Rightarrow> pystr \<Rightarrow> py_exc + integration_item" where
  "create_integration_item_metadata_object_hubspot E response_json itype =
     andthen (py_get response_json (S ''id'') PNone) (\<lambda>iid.
     andthen (py_get response_json (S ''properties'') (PDict [])) (\<lambda>properties.
     andthen (hubspot_name E properties itype) (\<lambda>nm.
     andthen (hubspot_timestamp E properties (S ''createdate'')) (\<lambda>ctime.
     andthen (hubspot_timestamp E properties (S ''hs_lastmodifieddate'')) (\<lambda>mtime.
       Inr \<lparr>item_id = py_str E iid, item_type = PStr itype, name = nm,
            creation_time = ctime, last_modified_time = mtime,
            url = (if itype = S ''contact''
                   then Some (S ''https://app.hubspot.com/contacts/'' @ py_str E iid)
                   else None),
            visibility = True\<rparr>)))))"

text \<open>
  \<^verbatim>\<open>get_items_hubspot\<close> (lines 158 to 237). The three blocks of the source (lines
  170 to 189, 191 to 210, 212 to 230) differ in the address, the limit and the type
  of the items; \<open>hubspot_fetch\<close> is one such block, whose \<^verbatim>\<open>except Exception\<close>
  keeps the items appended so far. The \<^verbatim>\<open>print\<close> calls have no part in the result.
\<close>

definition hubspot_list_request :: "platform \<Rightarrow> pyval \<Rightarrow> pystr \<Rightarrow> int \<Rightarrow> http_request" where
  "hubspot_list_request E access_token address limit =
     \<lparr>http_method = S ''GET'', http_url = address,
      http_headers = [(S ''Authorization'', S ''Bearer '' @ py_str E access_token)],
      http_params = [(S ''limit'', PInt limit)],
      http_payload = NoPayload\<rparr>"

definition hubspot_fetch ::
  "platform \<Rightarrow> http_client \<Rightarrow> pyval \<Rightarrow> pystr \<Rightarrow> int \<Rightarrow> pystr \<Rightarrow> integration_item list
     \<Rightarrow> integration_item list" where
  "hubspot_fetch E client access_token address limit itype items =
     (case client (hubspot_list_request E access_token address limit) of
        Inl e \<Rightarrow> items
      | Inr response \<Rightarrow>
          if status_code response = 200 then
            (case andthen (json_body response) (\<lambda>data.
                    andthen (py_get data (S ''results'') (PList [])) py_iter) of
               Inl e \<Rightarrow> items
             | Inr results \<Rightarrow>
                 snd (append_items
                        (\<lambda>x. create_integration_item_metadata_object_hubspot E x itype)
                        results items))
          else items)"

definition get_items_hubspot ::
  "platform \<Rightarrow> http_client \<Rightarrow> pyval \<Rightarrow> py_exc + integration_item list" where
  "get_items_hubspot E client credentials =
     andthen (case credentials of PStr s \<Rightarrow> json_loads s | _ \<Rightarrow> Inr credentials) (\<lambda>creds.
     andthen (py_get creds (S ''access_token'') PNone) (\<lambda>access_token.
       if \<not> truthy access_token then Inr []
       else
         Inr (hubspot_fetch E client access_token
                (S ''https://api.hubapi.com/crm/v3/objects/deals'') 50 (S ''deal'')
             (hubspot_fetch E client access_token
                (S ''https://api.hubapi.com/crm/v3/objects/companies'') 50 (S ''company'')
             (hubspot_fetch E client access_token
                (S ''https://api.hubapi.com/crm/v3/objects/contacts'') 100 (S ''contact'')
                [])))))"

section \<open>notion.py\<close>

definition NOTION_VERSION :: pystr where
  "NOTION_VERSION = S ''2022-06-28''"

definition notion_state_key :: "platform \<Rightarrow> pyval \<Rightarrow> pyval \<Rightarrow> pystr" where
  "notion_state_key E org_id user_id =
     S ''notion_state:'' @ py_str E org_id @ S '':'' @ py_str E user_id"

definition notion_tokens_key :: "platform \<Rightarrow> pyval \<Rightarrow> pyval \<Rightarrow> pystr" where
  "notion_tokens_key E org_id user_id =
     S ''notion_tokens:'' @ py_str E org_id @ S '':'' @ py_str E user_id"

text \<open>
  \<^verbatim>\<open>encode_state\<close> (lines 47 to 54) and \<^verbatim>\<open>authorize_notion\<close> (lines 56 to
  67); \<open>token\<close> is again the random token.
\<close>

definition encode_state ::
  "platform \<Rightarrow> pystr \<Rightarrow> pystr \<Rightarrow> pystr \<Rightarrow> py_exc + pystr \<times> pyval" where
  "encode_state E token user_id org_id =
     (let state_data = PDict [(S ''state'', PStr token), (S ''user_id'', PStr user_id),
                              (S ''org_id'', PStr org_id)]
      in andthen (utf8_encode (json_dumps E state_data)) (\<lambda>b.
         andthen (utf8_decode (urlsafe_b64encode b)) (\<lambda>encoded_state.
           Inr (encoded_state, state_data))))"

definition authorize_notion ::
  "platform \<Rightarrow> config \<Rightarrow> pystr \<Rightarrow> pystr \<Rightarrow> pystr \<Rightarrow> store \<Rightarrow> (py_exc + pystr) \<times> store" where
  "authorize_notion E cfg token user_id org_id store =
     (case encode_state E token user_id org_id of
        Inl e \<Rightarrow> (Inl e, store)
      | Inr (encoded_state, state_data) \<Rightarrow>
          (Inr (S ''https://api.notion.com/v1/oauth/authorize''
                @ S ''?client_id='' @ py_str E (CLIENT_ID cfg)
                @ S ''&response_type=code''
                @ S ''&owner=user''
                @ S ''&redirect_uri='' @ py_str E (REDIRECT_URI cfg)
                @ S ''&state='' @ encoded_state),
           add_key_value_redis store (notion_state_key E (PStr org_id) (PStr user_id))
             encoded_state (Some 600)))"

definition close_window_script :: html_response where
  "close_window_script = HTMLResponse (concat
     [[10], S ''    <html>'', [10], S ''        <script>'', [10],
      S ''            window.close();'', [10], S ''        </script>'', [10],
      S ''    </html>'', [10], S ''    ''])"

definition notion_token_request :: "pystr \<Rightarrow> config \<Rightarrow> pyval \<Rightarrow> http_request" where
  "notion_token_request auth_header cfg code =
     \<lparr>http_method = S ''POST'', http_url = S ''https://api.notion.com/v1/oauth/token'',
      http_headers = [(S ''Authorization'', S ''Basic '' @ auth_header),
                      (S ''Content-Type'', S ''application/json'')],
      http_params = [],
      http_payload = JsonData (PDict
        [(S ''grant_type'', PStr (S ''authorization_code'')),
         (S ''code'', code),
         (S ''redirect_uri'', REDIRECT_URI cfg)])\<rparr>"

text \<open>
  \<^verbatim>\<open>oauth2callback_notion\<close> (lines 69 to 118): here the state is compared
  with the stored one (lines 84 to 86), and the stored state is deleted at the end
  (line 110).
\<close>

definition oauth2callback_notion ::
  "platform \<Rightarrow> config \<Rightarrow> http_client \<Rightarrow> request \<Rightarrow> store
     \<Rightarrow> (py_exc + html_response) \<times> store" where
  "oauth2callback_notion E cfg client request store =
     (if truthy (query_get request (S ''error''))
      then (Inl (HTTPException 400 (query_get request (S ''error''))), store)
      else
        let code = query_get request (S ''code'');
            encoded_state = query_get request (S ''state'')
        in if \<not> truthy code \<or> \<not> truthy encoded_state
           then (Inl (HTTPException 400 (PStr (S ''Missing code or state''))), store)
           else
             (case decode_state encoded_state of
                Inl e \<Rightarrow> (Inl (HTTPException 400 (PStr (S ''Invalid state''))), store)
              | Inr state_data \<Rightarrow>
                  (case andthen (py_get state_data (S ''user_id'') PNone) (\<lambda>user_id.
                          andthen (py_get state_data (S ''org_id'') PNone) (\<lambda>org_id.
                            Inr (user_id, org_id))) of
                     Inl e \<Rightarrow> (Inl e, store)
                   | Inr (user_id, org_id) \<Rightarrow>
                       (case get_value_redis store (notion_state_key E org_id user_id) of
                          None \<Rightarrow>
                            (Inl (HTTPException 400 (PStr (S ''State does not match''))), store)
                        | Some stored_state \<Rightarrow>
                            if stored_state = [] \<or> PStr stored_state \<noteq> encoded_state
                            then (Inl (HTTPException 400
                                        (PStr (S ''State does not match''))), store)
                            else
                              (case andthen
                                      (utf8_encode (py_str E (CLIENT_ID cfg) @ S '':''
                                                     @ py_str E (CLIENT_SECRET cfg)))
                                      (\<lambda>b. utf8_decode (b64encode b)) of
                                 Inl e \<Rightarrow> (Inl e, store)
                               | Inr auth_header \<Rightarrow>
                                   (case client (notion_token_request auth_header cfg code) of
                                      Inl e \<Rightarrow> (Inl e, store)
                                    | Inr response \<Rightarrow>
                                        if status_code response \<noteq> 200
                                        then (Inl (HTTPException 400
                                               (PStr (S ''Failed to exchange code for tokens''))),
                                              store)
                                        else
                                          (case json_body response of
                                             Inl e \<Rightarrow> (Inl e, store)
                                           | Inr token_info \<Rightarrow>
                                               (Inr close_window_script,
                                                delete_key_redis
                                                  (add_key_value_redis store
                                                     (notion_tokens_key E org_id user_id)
                                                     (json_dumps E token_info) None)
                                                  (notion_state_key E org_id user_id)))))))))"

text \<open>
  \<^verbatim>\<open>get_notion_credentials\<close> (lines 120 to 124): \<^verbatim>\<open>None\<close> when nothing is
  stored.
\<close>

definition get_notion_credentials :: "platform \<Rightarrow> store \<Rightarrow> pystr \<Rightarrow> pystr \<Rightarrow> py_exc + pyval" where
  "get_notion_credentials E store user_id org_id =
     (case get_value_redis store (notion_tokens_key E (PStr org_id) (PStr user_id)) of
        None \<Rightarrow> Inr PNone
      | Some credentials \<Rightarrow>
          if credentials = [] then Inr PNone else json_loads credentials)"

text \<open>
  \<^verbatim>\<open>create_integration_item_metadata_object\<close> of notion.py (lines 126 to 161).
  \<open>find_title\<close> is the loop over the values of \<^verbatim>\<open>properties\<close> (lines 133 to
  138): it returns the name it leaves, \<^verbatim>\<open>None\<close> when no property gave one.
  \<open>notion_timestamp\<close> is one of the two \<^verbatim>\<open>try\<close> blocks (lines 144 to 151), whose
  \<^verbatim>\<open>except Exception\<close> leaves \<^verbatim>\<open>None\<close>.
\<close>

fun find_title :: "pyval list \<Rightarrow> py_exc + pyval" where
  "find_title [] = Inr PNone"
| "find_title (prop # props) =
     (case py_get prop (S ''type'') PNone of
        Inl e \<Rightarrow> Inl e
      | Inr t \<Rightarrow>
          if t = PStr (S ''title'') then
            (case py_get prop (S ''title'') (PList []) of
               Inl e \<Rightarrow> Inl e
             | Inr title_arr \<Rightarrow>
                 (case title_arr of
                    PList (x # xs) \<Rightarrow> py_get x (S ''plain_text'') PNone
                  | _ \<Rightarrow> find_title props))
          else find_title props)"

definition notion_timestamp :: "platform \<Rightarrow> pyval \<Rightarrow> datetime option" where
  "notion_timestamp E v =
     (if truthy v then
        (case v of
           PStr s \<Rightarrow> (case fromisoformat E (replace_Z s) of Inl e \<Rightarrow> None | Inr d \<Rightarrow> Some d)
         | _ \<Rightarrow> None)
      else None)"

definition notion_name :: "platform \<Rightarrow> pyval \<Rightarrow> pyval \<Rightarrow> py_exc + pyval" where
  "notion_name E response_json obj_type =
     andthen (case response_json of
                PDict kvs \<Rightarrow>
                  if S ''properties'' \<in> fst ` set kvs
                  then andthen (py_subscript response_json (S ''properties''))
                         (\<lambda>p. andthen (py_values p) find_title)
                  else Inr PNone
              | _ \<Rightarrow> Inl TypeError) (\<lambda>nm.
       if \<not> truthy nm then
         (case obj_type of
            PStr t \<Rightarrow> Inr (PStr (capitalize E t @ S '' Item''))
          | _ \<Rightarrow> Inl AttributeError)
       else Inr nm)"

definition create_integration_item_metadata_object_notion ::
  "platform \<Rightarrow> pyval \<Rightarrow> py_exc + integration_item" where
  "create_integration_item_metadata_object_notion E response_json =
     andthen (py_get response_json (S ''id'') PNone) (\<lambda>iid.
     andthen (py_get response_json (S ''object'') (PStr (S ''unknown''))) (\<lambda>obj_type.
     andthen (notion_name E response_json obj_type) (\<lambda>nm.
     andthen (py_get response_json (S ''created_time'') PNone) (\<lambda>ctime.
     andthen (py_get response_json (S ''last_edited_time'') PNone) (\<lambda>etime.
       Inr \<lparr>item_id = py_str E iid, item_type = obj_type, name = nm,
            creation_time = notion_timestamp E ctime,
            last_modified_time = notion_timestamp E etime,
            url = None, visibility = True\<rparr>)))))"

text \<open>
  \<^verbatim>\<open>get_items_notion\<close> (lines 163 to 190): nothing is caught here, so whatever
  the request, the decoding of the response or an item raises is raised.
\<close>

definition notion_search_request :: "platform \<Rightarrow> pyval \<Rightarrow> http_request" where
  "notion_search_request E access_token =
     \<lparr>http_method = S ''POST'', http_url = S ''https://api.notion.com/v1/search'',
      http_headers = [(S ''Authorization'', S ''Bearer '' @ py_str E access_token),
                      (S ''Notion-Version'', NOTION_VERSION)],
      http_params = [], http_payload = NoPayload\<rparr>"

definition get_items_notion ::
  "platform \<Rightarrow> http_client \<Rightarrow> pyval \<Rightarrow> py_exc + integration_item list" where
  "get_items_notion E client credentials =
     andthen (case credentials of PStr s \<Rightarrow> json_loads s | _ \<Rightarrow> Inr credentials) (\<lambda>creds.
     andthen (py_get creds (S ''access_token'') PNone) (\<lambda>access_token.
       if \<not> truthy access_token then Inr []
       else
         andthen (client (notion_search_request E access_token)) (\<lambda>response.
           if status_code response = 200 then
             andthen (json_body response) (\<lambda>data.
             andthen (py_get data (S ''results'') (PList [])) (\<lambda>results.
             andthen (py_iter results) (\<lambda>xs.
               case append_items (create_integration_item_metadata_object_notion E) xs [] of
                 (Some e, items) \<Rightarrow> Inl e
               | (None, items) \<Rightarrow> Inr items)))
           else Inr [])))"

section \<open>Example inputs\<close>

text \<open>
  A platform whose local time is UTC, a configuration, and the state that both
  \<^verbatim>\<open>authorize\<close> functions make for the token \<^verbatim>\<open>t\<close>, the user \<^verbatim>\<open>u\<close> and
  the organization \<^verbatim>\<open>o\<close>: the base64 text of
  \<^verbatim>\<open>{"state": "t", "user_id": "u", "org_id": "o"}\<close>.
\<close>

definition utc_platform :: platform where
  "utc_platform =
     \<lparr>py_repr = (\<lambda>v. S ''?''), capitalize_unicode = (\<lambda>s. s), int_unicode = (\<lambda>s. None),
      fromisoformat_more = (\<lambda>s. None), utcoffset = (\<lambda>t. 0)\<rparr>"

definition example_config :: config where
  "example_config =
     \<lparr>CLIENT_ID = PStr (S ''id''), CLIENT_SECRET = PStr (S ''secret''),
      REDIRECT_URI = PStr (S ''http://localhost:8000/callback'')\<rparr>"

definition example_state :: pystr where
  "example_state = S ''eyJzdGF0ZSI6ICJ0IiwgInVzZXJfaWQiOiAidSIsICJvcmdfaWQiOiAibyJ9''"

definition example_request :: request where
  "example_request =
     \<lparr>query_params = [S ''code'' \<mapsto> S ''c'', S ''state'' \<mapsto> example_state]\<rparr>"

text \<open>
  The dict that this state decodes to, and a request that the provider answered with
  an error.
\<close>

definition example_state_data :: pyval where
  "example_state_data =
     PDict [(S ''state'', PStr (S ''t'')), (S ''user_id'', PStr (S ''u'')),
            (S ''org_id'', PStr (S ''o''))]"

text \<open>
  The state that a later call of \<^verbatim>\<open>authorize\<close> makes for the same user and
  organization, with the token \<^verbatim>\<open>x\<close>; it replaces the first one in the store.
\<close>

definition later_state :: pystr where
  "later_state = S ''eyJzdGF0ZSI6ICJ4IiwgInVzZXJfaWQiOiAidSIsICJvcmdfaWQiOiAibyJ9''"

definition denied_request :: request where
  "denied_request = \<lparr>query_params = [S ''error'' \<mapsto> S ''access_denied'']\<rparr>"

text \<open>
  A token endpoint that accepts every code, and one that answers with status 500.
\<close>

definition example_token_info :: pyval where
  "example_token_info = PDict [(S ''access_token'', PStr (S ''tok''))]"

definition accepting_client :: http_client where
  "accepting_client rq = Inr \<lparr>status_code = 200, json_body = Inr example_token_info\<rparr>"

definition failing_client :: http_client where
  "failing_client rq = Inr \<lparr>status_code = 500, json_body = Inl JSONDecodeError\<rparr>"







text \<open>
  The date and time 2023-11-14 22:13:20, naive or with an offset from UTC; it is the
  time in UTC of the instant 1700000000 seconds after the epoch.
\<close>

definition known_time :: "int option \<Rightarrow> datetime" where
  "known_time tz =
     \<lparr>year = 2023, month = 11, day = 14, hour = 22, minute = 13, second = 20,
      microsecond = 0, tzinfo = tz\<rparr>"

section \<open>Well-formed objects\<close>

text \<open>
  The conditions on an object under which the normalizers are shown to return. For
  HubSpot, \<open>no_overflow\<close> says of a time stamp that its conversion raises neither
  \<^verbatim>\<open>OverflowError\<close> nor \<^verbatim>\<open>OSError\<close>, as it does for a number beyond the range of
  the platform's \<^verbatim>\<open>time_t\<close>; a time stamp that is no number at all is not one of
  these. For Notion, a property is well formed when it is a dict and, if its type is
  \<^verbatim>\<open>title\<close> and its title a non-empty list, the first element of that list is a
  dict.
\<close>

definition no_overflow :: "platform \<Rightarrow> pyval \<Rightarrow> bool" where
  "no_overflow E v =
     (case andthen (py_int E v) (\<lambda>n. andthen (int_truediv n 1000) (fromtimestamp E)) of
        Inl e \<Rightarrow> is_ValueError e \<or> is_TypeError e
      | Inr d \<Rightarrow> True)"

definition well_formed_property :: "pyval \<Rightarrow> bool" where
  "well_formed_property p =
     (case p of
        PDict d \<Rightarrow>
          (if dict_get d (S ''type'') PNone = PStr (S ''title'')
           then (case dict_get d (S ''title'') (PList []) of
                   PList (x # xs) \<Rightarrow> (case x of PDict td \<Rightarrow> True | _ \<Rightarrow> False)
                 | _ \<Rightarrow> True)
           else True)
      | _ \<Rightarrow> False)"

section \<open>Properties\<close>

subsection \<open>Basic facts\<close>

lemma andthen_Inl [simp]: "andthen (Inl e) f = Inl e"
  by (simp add: andthen_def)

lemma andthen_Inr [simp]: "andthen (Inr x) f = f x"
  by (simp add: andthen_def)

lemma S_simps: "S [] = []" "S (c # cs) = cp c # S cs"
  by (simp_all add: S_def)

lemma S_eq_Nil [simp]: "(S s = []) = (s = [])"
  by (simp add: S_def)

text \<open>The definitions that evaluate the codecs on a given text.\<close>

lemmas codec_simps = S_def cp_def skip_ws_def is_ws_def dumps_str_def escape_char_def
  json_loads_def put_def unescape_def scan_atom_def strip_prefix_def Let_def
  urlsafe_b64decode_def urlsafe_b64encode_def is_ascii_def b64_val_def b64_char_def consR_def

subsection \<open>The example inputs\<close>

lemma S_append: "S (a @ b) = S a @ S b"
  by (simp add: S_def)

lemma example_keys:
  "notion_state_key utc_platform (PStr (S ''o'')) (PStr (S ''u'')) = S ''notion_state:o:u''"
  "notion_tokens_key utc_platform (PStr (S ''o'')) (PStr (S ''u'')) = S ''notion_tokens:o:u''"
  "hubspot_state_key utc_platform (PStr (S ''o'')) (PStr (S ''u'')) = S ''hubspot_state:o:u''"
  "hubspot_tokens_key utc_platform (PStr (S ''o'')) (PStr (S ''u'')) = S ''hubspot_tokens:o:u''"
  by (simp_all add: notion_state_key_def notion_tokens_key_def hubspot_state_key_def
        hubspot_tokens_key_def S_def)

lemma example_key_distinct:
  "S ''hubspot_tokens:o:u'' \<noteq> S ''hubspot_state:o:u''"
  "S ''hubspot_state:o:u'' \<noteq> S ''hubspot_tokens:o:u''"
  "S ''notion_tokens:o:u'' \<noteq> S ''notion_state:o:u''"
  "S ''notion_state:o:u'' \<noteq> S ''notion_tokens:o:u''"
  by (simp_all add: S_def cp_def)

lemma example_token_info_roundtrip:
  "json_loads (json_dumps utc_platform example_token_info) = Inr example_token_info"
  by (simp add: example_token_info_def codec_simps)

lemma example_token_info_dumps_nonempty: "json_dumps utc_platform example_token_info \<noteq> []"
  by (simp add: example_token_info_def S_def)

lemma example_state_decodes: "decode_state (PStr example_state) = Inr example_state_data"
  by (simp add: example_state_def example_state_data_def codec_simps)

lemma example_state_encodes:
  "andthen (utf8_encode (json_dumps utc_platform example_state_data))
     (\<lambda>b. utf8_decode (urlsafe_b64encode b)) = Inr example_state"
  by (simp add: example_state_def example_state_data_def codec_simps)

lemma example_state_data_fold:
  "PDict [(S ''state'', PStr (S ''t'')), (S ''user_id'', PStr (S ''u'')),
          (S ''org_id'', PStr (S ''o''))] = example_state_data"
  by (simp add: example_state_data_def)

lemma example_state_nonempty: "example_state \<noteq> []"
  by (simp add: example_state_def)

lemma later_state_differs: "later_state \<noteq> example_state" "later_state \<noteq> []"
  by (simp_all add: later_state_def example_state_def S_def cp_def)

lemma example_request_params:
  "query_get example_request (S ''error'') = PNone"
  "query_get example_request (S ''code'') = PStr (S ''c'')"
  "query_get example_request (S ''state'') = PStr example_state"
  by (simp_all add: query_get_def example_request_def S_def cp_def)

lemma example_state_data_fields:
  "py_subscript example_state_data (S ''org_id'') = Inr (PStr (S ''o''))"
  "py_subscript example_state_data (S ''user_id'') = Inr (PStr (S ''u''))"
  "py_get example_state_data (S ''org_id'') PNone = Inr (PStr (S ''o''))"
  "py_get example_state_data (S ''user_id'') PNone = Inr (PStr (S ''u''))"
  by (simp_all add: example_state_data_def S_def cp_def dict_get_def)

text \<open>
  \<^verbatim>\<open>authorize_hubspot\<close> and \<^verbatim>\<open>authorize_notion\<close> store these states: the first
  call (token \<^verbatim>\<open>t\<close>) stores \<open>example_state\<close>, a later call (token \<^verbatim>\<open>x\<close>)
  replaces it by \<open>later_state\<close>.
\<close>

lemma authorize_hubspot_example:
  "snd (authorize_hubspot utc_platform example_config (S ''t'') (S ''u'') (S ''o'') Map.empty)
     = [S ''hubspot_state:o:u'' \<mapsto> example_state]"
  by (simp add: authorize_hubspot_def Let_def add_key_value_redis_def example_keys
        example_state_encodes example_state_data_fold del: json_dumps.simps)

lemma authorize_hubspot_later:
  "snd (authorize_hubspot utc_platform example_config (S ''x'') (S ''u'') (S ''o'')
          [S ''hubspot_state:o:u'' \<mapsto> example_state])
     = [S ''hubspot_state:o:u'' \<mapsto> later_state]"
proof -
  have "andthen (utf8_encode (json_dumps utc_platform
                   (PDict [(S ''state'', PStr (S ''x'')), (S ''user_id'', PStr (S ''u'')),
                           (S ''org_id'', PStr (S ''o''))])))
          (\<lambda>b. utf8_decode (urlsafe_b64encode b)) = Inr later_state"
    by (simp add: later_state_def codec_simps)
  then show ?thesis
    by (simp add: authorize_hubspot_def Let_def add_key_value_redis_def example_keys
          del: json_dumps.simps)
qed

lemma encode_state_example:
  "encode_state utc_platform (S ''t'') (S ''u'') (S ''o'') = Inr (example_state, example_state_data)"
  by (simp add: encode_state_def example_state_def example_state_data_def codec_simps)

lemma authorize_notion_example:
  "snd (authorize_notion utc_platform example_config (S ''t'') (S ''u'') (S ''o'') Map.empty)
     = [S ''notion_state:o:u'' \<mapsto> example_state]"
  by (simp add: authorize_notion_def encode_state_example add_key_value_redis_def example_keys)

subsection \<open>The failing paths of the callbacks\<close>

text \<open>
  Each condition under which a callback handler gives up, with the error it raises
  and the store it leaves: the \<^verbatim>\<open>error\<close> parameter, a missing code or state, a
  state that cannot be decoded, and a token endpoint that does not answer with
  status 200. They hold for both handlers. The one condition that only
  \<^verbatim>\<open>oauth2callback_notion\<close> tests is the comparison with the stored state.
\<close>

lemma callback_error_parameter:
  assumes "truthy (query_get request (S ''error''))"
  shows "oauth2callback_hubspot E cfg client request store
           = (Inl (HTTPException 400 (query_get request (S ''error''))), store)"
    and "oauth2callback_notion E cfg client request store
           = (Inl (HTTPException 400 (query_get request (S ''error''))), store)"
  using assms by (simp_all add: oauth2callback_hubspot_def oauth2callback_notion_def)

lemma callback_missing_code_or_state:
  assumes "\<not> truthy (query_get request (S ''error''))"
    and "\<not> truthy (query_get request (S ''code''))
         \<or> \<not> truthy (query_get request (S ''state''))"
  shows "oauth2callback_hubspot E cfg client request store
           = (Inl (HTTPException 400 (PStr (S ''Missing code or state''))), store)"
    and "oauth2callback_notion E cfg client request store
           = (Inl (HTTPException 400 (PStr (S ''Missing code or state''))), store)"
  using assms by (auto simp add: oauth2callback_hubspot_def oauth2callback_notion_def Let_def)

lemma callback_undecodable_state:
  assumes "\<not> truthy (query_get request (S ''error''))"
    and "truthy (query_get request (S ''code''))"
    and "truthy (query_get request (S ''state''))"
    and "decode_state (query_get request (S ''state'')) = Inl e"
  shows "oauth2callback_hubspot E cfg client request store
           = (Inl (HTTPException 400 (PStr (S ''Invalid state''))), store)"
    and "oauth2callback_notion E cfg client request store
           = (Inl (HTTPException 400 (PStr (S ''Invalid state''))), store)"
  using assms by (simp_all add: oauth2callback_hubspot_def oauth2callback_notion_def Let_def)

lemma notion_callback_state_mismatch:
  assumes "\<not> truthy (query_get request (S ''error''))"
    and "truthy (query_get request (S ''code''))"
    and "query_get request (S ''state'') = PStr st" and "st \<noteq> []"
    and "decode_state (PStr st) = Inr (PDict kvs)"
    and "store (notion_state_key E (dict_get kvs (S ''org_id'') PNone)
                  (dict_get kvs (S ''user_id'') PNone)) \<noteq> Some st"
  shows "oauth2callback_notion E cfg client request store
           = (Inl (HTTPException 400 (PStr (S ''State does not match''))), store)"
  using assms
  by (simp add: oauth2callback_notion_def Let_def get_value_redis_def split: option.split
        del: decode_state.simps)

lemma hubspot_callback_failed_exchange:
  assumes "\<not> truthy (query_get request (S ''error''))"
    and "truthy (query_get request (S ''code''))"
    and "truthy (query_get request (S ''state''))"
    and "decode_state (query_get request (S ''state'')) = Inr state_data"
    and "client (hubspot_token_request cfg (query_get request (S ''code''))) = Inr response"
    and "status_code response \<noteq> 200"
  shows "oauth2callback_hubspot E cfg client request store
           = (Inl (HTTPException 400 (PStr (S ''Failed to exchange code for tokens''))), store)"
  using assms by (simp add: oauth2callback_hubspot_def Let_def)

lemma notion_callback_failed_exchange:
  assumes "\<not> truthy (query_get request (S ''error''))"
    and "truthy (query_get request (S ''code''))"
    and "query_get request (S ''state'') = PStr st" and "st \<noteq> []"
    and "decode_state (PStr st) = Inr (PDict kvs)"
    and "store (notion_state_key E (dict_get kvs (S ''org_id'') PNone)
                  (dict_get kvs (S ''user_id'') PNone)) = Some st"
    and "andthen (utf8_encode (py_str E (CLIENT_ID cfg) @ S '':'' @ py_str E (CLIENT_SECRET cfg)))
           (\<lambda>b. utf8_decode (b64encode b)) = Inr auth_header"
    and "client (notion_token_request auth_header cfg (query_get request (S ''code'')))
           = Inr response"
    and "status_code response \<noteq> 200"
  shows "oauth2callback_notion E cfg client request store
           = (Inl (HTTPException 400 (PStr (S ''Failed to exchange code for tokens''))), store)"
  using assms
  by (simp add: oauth2callback_notion_def Let_def get_value_redis_def del: decode_state.simps)

text \<open>
  Whatever makes a handler fail, it leaves the store as it was: the only writes stand
  behind the last step that can fail.
\<close>

lemma callback_failure_keeps_store:
  "(\<forall>e. fst (oauth2callback_hubspot E cfg client request store) = Inl e
        \<longrightarrow> snd (oauth2callback_hubspot E cfg client request store) = store)
   \<and> (\<forall>e. fst (oauth2callback_notion E cfg client request store) = Inl e
        \<longrightarrow> snd (oauth2callback_notion E cfg client request store) = store)"
proof (intro conjI allI)
  fix e
  show "fst (oauth2callback_hubspot E cfg client request store) = Inl e
        \<longrightarrow> snd (oauth2callback_hubspot E cfg client request store) = store"
    by (simp add: oauth2callback_hubspot_def Let_def split: sum.split)
next
  fix e
  show "fst (oauth2callback_notion E cfg client request store) = Inl e
        \<longrightarrow> snd (oauth2callback_notion E cfg client request store) = store"
    by (simp add: oauth2callback_notion_def Let_def split: sum.split option.split prod.split)
qed

text \<open>
  The examples: a request with the \<^verbatim>\<open>error\<close> parameter, and a token endpoint
  that answers with status 500 to a request whose state is the stored one. After the
  failed exchange the state that \<^verbatim>\<open>authorize\<close> stored is still there, and no token
  is.
\<close>

lemma example_auth_header:
  "\<exists>h. andthen (utf8_encode (py_str utc_platform (CLIENT_ID example_config) @ S '':''
                   @ py_str utc_platform (CLIENT_SECRET example_config)))
         (\<lambda>b. utf8_decode (b64encode b)) = Inr h"
  by (simp add: example_config_def codec_simps)

lemma denied_request_fails:
  "oauth2callback_hubspot utc_platform example_config accepting_client denied_request
     [S ''hubspot_state:o:u'' \<mapsto> example_state]
   = (Inl (HTTPException 400 (PStr (S ''access_denied''))),
      [S ''hubspot_state:o:u'' \<mapsto> example_state])"
  "oauth2callback_notion utc_platform example_config accepting_client denied_request
     [S ''notion_state:o:u'' \<mapsto> example_state]
   = (Inl (HTTPException 400 (PStr (S ''access_denied''))),
      [S ''notion_state:o:u'' \<mapsto> example_state])"
  by (simp_all add: oauth2callback_hubspot_def oauth2callback_notion_def query_get_def
        denied_request_def)

lemma hubspot_failed_exchange_example:
  "oauth2callback_hubspot utc_platform example_config failing_client example_request
     [S ''hubspot_state:o:u'' \<mapsto> example_state]
   = (Inl (HTTPException 400 (PStr (S ''Failed to exchange code for tokens''))),
      [S ''hubspot_state:o:u'' \<mapsto> example_state])"
  by (rule hubspot_callback_failed_exchange [where state_data = example_state_data
          and response = "\<lparr>status_code = 500, json_body = Inl JSONDecodeError\<rparr>"])
     (simp_all add: example_request_params example_state_nonempty example_state_decodes
        failing_client_def del: decode_state.simps)

lemma notion_failed_exchange_example:
  "oauth2callback_notion utc_platform example_config failing_client example_request
     [S ''notion_state:o:u'' \<mapsto> example_state]
   = (Inl (HTTPException 400 (PStr (S ''Failed to exchange code for tokens''))),
      [S ''notion_state:o:u'' \<mapsto> example_state])"
proof -
  obtain h where h:
    "andthen (utf8_encode (py_str utc_platform (CLIENT_ID example_config) @ S '':''
                @ py_str utc_platform (CLIENT_SECRET example_config)))
       (\<lambda>b. utf8_decode (b64encode b)) = Inr h"
    using example_auth_header by blast
  show ?thesis
    using h
    by (simp add: oauth2callback_notion_def Let_def example_request_params
          example_state_decodes example_state_data_fields example_keys get_value_redis_def
          example_state_nonempty failing_client_def del: decode_state.simps)
qed

subsection \<open>The state check\<close>

text \<open>
  \<^verbatim>\<open>oauth2callback_notion\<close> compares the state with the stored one (lines 84 to
  86): it refuses the example request when nothing is stored, and when the stored
  state is another one.
\<close>

lemma notion_callback_refuses_unknown_state:
  "oauth2callback_notion utc_platform example_config accepting_client example_request Map.empty
     = (Inl (HTTPException 400 (PStr (S ''State does not match''))), Map.empty)"
  "oauth2callback_notion utc_platform example_config accepting_client example_request
     [S ''notion_state:o:u'' \<mapsto> later_state]
     = (Inl (HTTPException 400 (PStr (S ''State does not match''))),
        [S ''notion_state:o:u'' \<mapsto> later_state])"
  using later_state_differs
  by (simp_all add: oauth2callback_notion_def Let_def example_request_params
        example_state_decodes example_state_data_fields example_keys get_value_redis_def
        example_state_nonempty del: decode_state.simps)

text \<open>
  C1, where the code departs from the claim: \<^verbatim>\<open>oauth2callback_hubspot\<close> never looks
  the state up (the comparison is a comment, lines 65 to 68). The request carries the
  state of an earlier authorization while the store holds the state of a later one, so
  the two differ; the token endpoint accepts the code. The handler raises nothing: it
  returns the success page and writes a token record for the user and the
  organization named in the state.
\<close>

theorem hubspot_callback_accepts_mismatched_state:
  "fst (oauth2callback_hubspot utc_platform example_config accepting_client example_request
          [S ''hubspot_state:o:u'' \<mapsto> later_state]) = Inr hubspot_success_page
   \<and> snd (oauth2callback_hubspot utc_platform example_config accepting_client example_request
          [S ''hubspot_state:o:u'' \<mapsto> later_state]) (S ''hubspot_tokens:o:u'')
       = Some (json_dumps utc_platform example_token_info)"
  by (simp add: oauth2callback_hubspot_def Let_def example_request_params example_state_decodes
        example_state_data_fields example_keys accepting_client_def add_key_value_redis_def
        example_state_nonempty example_key_distinct del: decode_state.simps)

theorem hubspot_callback_accepts_mismatched_state_witness:
  "fst (oauth2callback_hubspot utc_platform example_config accepting_client example_request
          [S ''hubspot_state:o:u'' \<mapsto> later_state])
     \<noteq> Inl (HTTPException 400 (PStr (S ''State does not match'')))
   \<and> snd (oauth2callback_hubspot utc_platform example_config accepting_client example_request
          [S ''hubspot_state:o:u'' \<mapsto> later_state]) (S ''hubspot_tokens:o:u'') \<noteq> None"
  using hubspot_callback_accepts_mismatched_state by simp

subsection \<open>The stored state after a callback\<close>

text \<open>
  \<^verbatim>\<open>oauth2callback_notion\<close> deletes the state (line 110): after
  \<^verbatim>\<open>authorize_notion\<close> and a callback that succeeds, the token key is set and the
  state key is absent.
\<close>

lemma notion_callback_deletes_state:
  "oauth2callback_notion utc_platform example_config accepting_client example_request
     [S ''notion_state:o:u'' \<mapsto> example_state]
   = (Inr close_window_script,
      [S ''notion_tokens:o:u'' \<mapsto> json_dumps utc_platform example_token_info])"
proof -
  obtain h where h:
    "andthen (utf8_encode (py_str utc_platform (CLIENT_ID example_config) @ S '':''
                @ py_str utc_platform (CLIENT_SECRET example_config)))
       (\<lambda>b. utf8_decode (b64encode b)) = Inr h"
    using example_auth_header by blast
  show ?thesis
    using example_key_distinct
    by (simp add: oauth2callback_notion_def Let_def example_request_params
          example_state_decodes example_state_data_fields example_keys get_value_redis_def
          example_state_nonempty h accepting_client_def add_key_value_redis_def
          delete_key_redis_def fun_upd_twist del: decode_state.simps)
qed

text \<open>
  C2, where the code departs from the claim: \<^verbatim>\<open>oauth2callback_hubspot\<close> has no such
  call. After \<^verbatim>\<open>authorize_hubspot\<close> has stored the state and the callback has
  completed with it, the token key is set but the state key is still there.
\<close>

theorem hubspot_callback_keeps_state:
  "fst (oauth2callback_hubspot utc_platform example_config accepting_client example_request
         [S ''hubspot_state:o:u'' \<mapsto> example_state]) = Inr hubspot_success_page
   \<and> snd (oauth2callback_hubspot utc_platform example_config accepting_client example_request
         [S ''hubspot_state:o:u'' \<mapsto> example_state]) (S ''hubspot_state:o:u'')
       = Some example_state
   \<and> snd (oauth2callback_hubspot utc_platform example_config accepting_client example_request
         [S ''hubspot_state:o:u'' \<mapsto> example_state]) (S ''hubspot_tokens:o:u'')
       = Some (json_dumps utc_platform example_token_info)"
  by (simp add: oauth2callback_hubspot_def Let_def example_request_params example_state_decodes
        example_state_data_fields example_keys accepting_client_def add_key_value_redis_def
        example_state_nonempty example_key_distinct del: decode_state.simps)

theorem hubspot_callback_keeps_state_witness:
  "snd (oauth2callback_hubspot utc_platform example_config accepting_client example_request
         [S ''hubspot_state:o:u'' \<mapsto> example_state]) (S ''hubspot_state:o:u'') \<noteq> None"
  using hubspot_callback_keeps_state by simp

subsection \<open>The callback and the store\<close>

text \<open>
  With no state stored at all (no authorization was started),
  \<^verbatim>\<open>oauth2callback_hubspot\<close> accepts the example request just the same.
\<close>

lemma hubspot_callback_accepts_unknown_state:
  "oauth2callback_hubspot utc_platform example_config accepting_client example_request Map.empty
     = (Inr hubspot_success_page,
        [S ''hubspot_tokens:o:u'' \<mapsto> json_dumps utc_platform example_token_info])"
  by (simp add: oauth2callback_hubspot_def Let_def example_request_params example_state_decodes
        example_state_data_fields example_keys accepting_client_def add_key_value_redis_def
        example_state_nonempty del: decode_state.simps)

text \<open>
  C10, where the code departs from the claim. Of the failing paths that the claim
  lists, \<^verbatim>\<open>oauth2callback_hubspot\<close> has all but one (see the lemmas on the failing
  paths): a state that does not match the stored one is no failure for it. When the
  request carries another state than the stored one, the handler succeeds and the
  store changes: beside the stored state there is now a token key.
\<close>

theorem hubspot_callback_mismatch_writes_store:
  "oauth2callback_hubspot utc_platform example_config accepting_client example_request
     [S ''hubspot_state:o:u'' \<mapsto> later_state]
   = (Inr hubspot_success_page,
      [S ''hubspot_state:o:u'' \<mapsto> later_state,
       S ''hubspot_tokens:o:u'' \<mapsto> json_dumps utc_platform example_token_info])"
  by (simp add: oauth2callback_hubspot_def Let_def example_request_params example_state_decodes
        example_state_data_fields example_keys accepting_client_def add_key_value_redis_def
        example_state_nonempty del: decode_state.simps)

theorem hubspot_callback_mismatch_writes_store_witness:
  "snd (oauth2callback_hubspot utc_platform example_config accepting_client example_request
          [S ''hubspot_state:o:u'' \<mapsto> later_state])
     \<noteq> [S ''hubspot_state:o:u'' \<mapsto> later_state]"
proof
  assume same:
    "snd (oauth2callback_hubspot utc_platform example_config accepting_client example_request
            [S ''hubspot_state:o:u'' \<mapsto> later_state])
       = [S ''hubspot_state:o:u'' \<mapsto> later_state]"
  have "snd (oauth2callback_hubspot utc_platform example_config accepting_client example_request
               [S ''hubspot_state:o:u'' \<mapsto> later_state]) (S ''hubspot_tokens:o:u'')
          = Some (json_dumps utc_platform example_token_info)"
    using hubspot_callback_mismatch_writes_store by simp
  then show False
    using same example_key_distinct by simp
qed

subsection \<open>Credentials\<close>

text \<open>
  C9: with no token record stored for the pair, \<^verbatim>\<open>get_hubspot_credentials\<close> raises
  the HTTP error 401 and \<^verbatim>\<open>get_notion_credentials\<close> returns \<^verbatim>\<open>None\<close>; with a
  (non-empty) record stored, both return what \<^verbatim>\<open>json.loads\<close> makes of it.
\<close>

theorem credentials_lookup:
  "(store (hubspot_tokens_key E (PStr org_id) (PStr user_id)) = None
      \<longrightarrow> get_hubspot_credentials E store user_id org_id
            = Inl (HTTPException 401 (PStr (S ''No credentials found''))))
   \<and> (store (notion_tokens_key E (PStr org_id) (PStr user_id)) = None
      \<longrightarrow> get_notion_credentials E store user_id org_id = Inr PNone)
   \<and> (\<forall>s. store (hubspot_tokens_key E (PStr org_id) (PStr user_id)) = Some s \<and> s \<noteq> []
      \<longrightarrow> get_hubspot_credentials E store user_id org_id = json_loads s)
   \<and> (\<forall>s. store (notion_tokens_key E (PStr org_id) (PStr user_id)) = Some s \<and> s \<noteq> []
      \<longrightarrow> get_notion_credentials E store user_id org_id = json_loads s)"
  by (simp add: get_hubspot_credentials_def get_notion_credentials_def get_value_redis_def)

theorem credentials_lookup_witness:
  "get_hubspot_credentials utc_platform Map.empty (S ''u'') (S ''o'')
     = Inl (HTTPException 401 (PStr (S ''No credentials found'')))
   \<and> get_notion_credentials utc_platform Map.empty (S ''u'') (S ''o'') = Inr PNone
   \<and> get_hubspot_credentials utc_platform
        [S ''hubspot_tokens:o:u'' \<mapsto> json_dumps utc_platform example_token_info]
        (S ''u'') (S ''o'') = Inr example_token_info
   \<and> get_notion_credentials utc_platform
        [S ''notion_tokens:o:u'' \<mapsto> json_dumps utc_platform example_token_info]
        (S ''u'') (S ''o'') = Inr example_token_info"
  using credentials_lookup [of Map.empty utc_platform "S ''o''" "S ''u''"]
    credentials_lookup [of "[S ''hubspot_tokens:o:u'' \<mapsto> json_dumps utc_platform example_token_info]"
      utc_platform "S ''o''" "S ''u''"]
    credentials_lookup [of "[S ''notion_tokens:o:u'' \<mapsto> json_dumps utc_platform example_token_info]"
      utc_platform "S ''o''" "S ''u''"]
    example_token_info_roundtrip example_token_info_dumps_nonempty
  by (simp add: example_keys)

subsection \<open>Credentials without an access token\<close>

text \<open>
  C4: when the credentials are a dict without the key \<^verbatim>\<open>access_token\<close>, or a
  string that \<^verbatim>\<open>json.loads\<close> decodes to such a dict, \<^verbatim>\<open>get_items_hubspot\<close> and
  \<^verbatim>\<open>get_items_notion\<close> return the empty list; they raise nothing and send no
  request.
\<close>

theorem get_items_without_access_token:
  assumes "credentials = PDict kvs
           \<or> (\<exists>s. credentials = PStr s \<and> json_loads s = Inr (PDict kvs))"
    and "map_of kvs (S ''access_token'') = None"
  shows "get_items_hubspot E client credentials = Inr []
         \<and> get_items_notion E client credentials = Inr []"
  using assms
  by (auto simp: get_items_hubspot_def get_items_notion_def dict_get_def)

lemma empty_object_loads: "json_loads (S ''{}'') = Inr (PDict [])"
  by (simp add: codec_simps)

theorem get_items_without_access_token_witness:
  "get_items_hubspot utc_platform accepting_client (PStr (S ''{}'')) = Inr []
   \<and> get_items_notion utc_platform accepting_client (PStr (S ''{}'')) = Inr []
   \<and> get_items_hubspot utc_platform accepting_client
        (PDict [(S ''refresh_token'', PStr (S ''r''))]) = Inr []
   \<and> get_items_notion utc_platform accepting_client
        (PDict [(S ''refresh_token'', PStr (S ''r''))]) = Inr []"
  using get_items_without_access_token [of "PStr (S ''{}'')" "[]" utc_platform accepting_client]
    get_items_without_access_token [of "PDict [(S ''refresh_token'', PStr (S ''r''))]"
      "[(S ''refresh_token'', PStr (S ''r''))]" utc_platform accepting_client]
    empty_object_loads
  by (simp add: S_def)

subsection \<open>The name of an item\<close>

lemma capitalize_unknown: "capitalize E (S ''unknown'') = S ''Unknown''"
  by (simp add: capitalize_def is_ascii_def ascii_upper_def ascii_lower_def S_def cp_def)

lemma strip_space: "strip (S '' '') = []"
  by (simp add: strip_def is_space_def S_def cp_def)

lemma find_title_none:
  "\<forall>p \<in> set props. \<exists>d. p = PDict d \<and> dict_get d (S ''type'') PNone \<noteq> PStr (S ''title'')
   \<Longrightarrow> find_title props = Inr PNone"
  by (induction props) auto

lemma hubspot_name_fallback:
  assumes "map_of ps (S ''firstname'') = None" and "map_of ps (S ''lastname'') = None"
    and "map_of ps (S ''email'') = None"
  shows "hubspot_name E (PDict ps) (S ''contact'') = Inr (PStr (S ''Unknown Contact''))"
  using assms strip_space by (simp add: hubspot_name_def dict_get_def S_append [symmetric])

lemma notion_name_fallback:
  assumes "S ''properties'' \<notin> fst ` set kvs
           \<or> (\<exists>ps. map_of kvs (S ''properties'') = Some (PDict ps)
                  \<and> (\<forall>p \<in> set (map snd ps).
                        \<exists>d. p = PDict d \<and> dict_get d (S ''type'') PNone \<noteq> PStr (S ''title'')))"
  shows "notion_name E (PDict kvs) (PStr t) = Inr (PStr (capitalize E t @ S '' Item''))"
  using assms find_title_none by (auto simp add: notion_name_def)

lemma capitalize_page: "capitalize utc_platform (S ''page'') @ S '' Item'' = S ''Page Item''"
  by (simp add: capitalize_def is_ascii_def ascii_upper_def ascii_lower_def S_def cp_def)

text \<open>
  C8: a HubSpot contact whose properties have no \<^verbatim>\<open>firstname\<close>, no
  \<^verbatim>\<open>lastname\<close> and no \<^verbatim>\<open>email\<close> gets the name \<^verbatim>\<open>Unknown Contact\<close>: whenever
  the normalizer returns an item that is its name, and it does return one when the
  object has no time stamps. A Notion object without \<^verbatim>\<open>properties\<close>, or all of
  whose properties are of another type than \<^verbatim>\<open>title\<close>, is normalized to an item
  whose name is its object type, capitalized, followed by \<^verbatim>\<open> Item\<close>; without the
  field \<^verbatim>\<open>object\<close> that is \<^verbatim>\<open>Unknown Item\<close>.
\<close>

theorem name_fallback:
  "(dict_get kvs (S ''properties'') (PDict []) = PDict ps
      \<and> map_of ps (S ''firstname'') = None \<and> map_of ps (S ''lastname'') = None
      \<and> map_of ps (S ''email'') = None
    \<longrightarrow> (\<forall>item. create_integration_item_metadata_object_hubspot E (PDict kvs) (S ''contact'')
                   = Inr item
                 \<longrightarrow> name item = PStr (S ''Unknown Contact''))
        \<and> (map_of ps (S ''createdate'') = None \<and> map_of ps (S ''hs_lastmodifieddate'') = None
             \<longrightarrow> (\<exists>item. create_integration_item_metadata_object_hubspot E (PDict kvs)
                          (S ''contact'') = Inr item)))
   \<and> ((S ''properties'' \<notin> fst ` set nkvs
        \<or> (\<exists>nps. map_of nkvs (S ''properties'') = Some (PDict nps)
               \<and> (\<forall>p \<in> set (map snd nps).
                     \<exists>d. p = PDict d \<and> dict_get d (S ''type'') PNone \<noteq> PStr (S ''title''))))
    \<longrightarrow> (\<forall>t. map_of nkvs (S ''object'') = Some (PStr t)
              \<longrightarrow> (\<exists>item. create_integration_item_metadata_object_notion E (PDict nkvs)
                             = Inr item
                           \<and> name item = PStr (capitalize E t @ S '' Item'')))
        \<and> (map_of nkvs (S ''object'') = None
              \<longrightarrow> (\<exists>item. create_integration_item_metadata_object_notion E (PDict nkvs)
                             = Inr item
                           \<and> name item = PStr (S ''Unknown Item''))))"
proof (intro conjI impI allI)
  fix item
  assume h: "dict_get kvs (S ''properties'') (PDict []) = PDict ps
      \<and> map_of ps (S ''firstname'') = None \<and> map_of ps (S ''lastname'') = None
      \<and> map_of ps (S ''email'') = None"
    and r: "create_integration_item_metadata_object_hubspot E (PDict kvs) (S ''contact'') = Inr item"
  have n: "hubspot_name E (PDict ps) (S ''contact'') = Inr (PStr (S ''Unknown Contact''))"
    using h by (simp add: hubspot_name_fallback)
  show "name item = PStr (S ''Unknown Contact'')"
    using r h n
    by (auto simp add: create_integration_item_metadata_object_hubspot_def andthen_def
          split: sum.splits)
next
  assume h: "dict_get kvs (S ''properties'') (PDict []) = PDict ps
      \<and> map_of ps (S ''firstname'') = None \<and> map_of ps (S ''lastname'') = None
      \<and> map_of ps (S ''email'') = None"
    and t: "map_of ps (S ''createdate'') = None \<and> map_of ps (S ''hs_lastmodifieddate'') = None"
  have n: "hubspot_name E (PDict ps) (S ''contact'') = Inr (PStr (S ''Unknown Contact''))"
    using h by (simp add: hubspot_name_fallback)
  show "\<exists>item. create_integration_item_metadata_object_hubspot E (PDict kvs) (S ''contact'')
                 = Inr item"
    using h n t
    by (simp add: create_integration_item_metadata_object_hubspot_def hubspot_timestamp_def
          dict_get_def)
next
  fix t
  assume h: "S ''properties'' \<notin> fst ` set nkvs
        \<or> (\<exists>nps. map_of nkvs (S ''properties'') = Some (PDict nps)
               \<and> (\<forall>p \<in> set (map snd nps).
                     \<exists>d. p = PDict d \<and> dict_get d (S ''type'') PNone \<noteq> PStr (S ''title'')))"
    and o: "map_of nkvs (S ''object'') = Some (PStr t)"
  have "notion_name E (PDict nkvs) (PStr t) = Inr (PStr (capitalize E t @ S '' Item''))"
    using h by (rule notion_name_fallback)
  then show "\<exists>item. create_integration_item_metadata_object_notion E (PDict nkvs) = Inr item
                   \<and> name item = PStr (capitalize E t @ S '' Item'')"
    using o by (simp add: create_integration_item_metadata_object_notion_def dict_get_def)
next
  assume h: "S ''properties'' \<notin> fst ` set nkvs
        \<or> (\<exists>nps. map_of nkvs (S ''properties'') = Some (PDict nps)
               \<and> (\<forall>p \<in> set (map snd nps).
                     \<exists>d. p = PDict d \<and> dict_get d (S ''type'') PNone \<noteq> PStr (S ''title'')))"
    and o: "map_of nkvs (S ''object'') = None"
  have "notion_name E (PDict nkvs) (PStr (S ''unknown''))
          = Inr (PStr (capitalize E (S ''unknown'') @ S '' Item''))"
    using h by (rule notion_name_fallback)
  then show "\<exists>item. create_integration_item_metadata_object_notion E (PDict nkvs) = Inr item
                   \<and> name item = PStr (S ''Unknown Item'')"
    using o
    by (simp add: create_integration_item_metadata_object_notion_def dict_get_def
          capitalize_unknown S_append [symmetric])
qed

theorem name_fallback_witness:
  "(\<exists>item. create_integration_item_metadata_object_hubspot utc_platform
              (PDict [(S ''id'', PStr (S ''1'')),
                      (S ''properties'', PDict [(S ''phone'', PStr (S ''5''))])])
              (S ''contact'') = Inr item
           \<and> name item = PStr (S ''Unknown Contact''))
   \<and> (\<exists>item. create_integration_item_metadata_object_notion utc_platform
              (PDict [(S ''id'', PStr (S ''p'')), (S ''object'', PStr (S ''page'')),
                      (S ''properties'',
                       PDict [(S ''Tags'', PDict [(S ''type'', PStr (S ''multi_select''))])])])
              = Inr item
           \<and> name item = PStr (S ''Page Item''))
   \<and> (\<exists>item. create_integration_item_metadata_object_notion utc_platform
              (PDict [(S ''id'', PStr (S ''p''))]) = Inr item
           \<and> name item = PStr (S ''Unknown Item''))"
proof -
  have a: "dict_get [(S ''id'', PStr (S ''1'')),
                     (S ''properties'', PDict [(S ''phone'', PStr (S ''5''))])]
             (S ''properties'') (PDict []) = PDict [(S ''phone'', PStr (S ''5''))]
           \<and> map_of [(S ''phone'', PStr (S ''5''))] (S ''firstname'') = None
           \<and> map_of [(S ''phone'', PStr (S ''5''))] (S ''lastname'') = None
           \<and> map_of [(S ''phone'', PStr (S ''5''))] (S ''email'') = None"
    by (simp add: dict_get_def S_def cp_def)
  have b: "map_of [(S ''phone'', PStr (S ''5''))] (S ''createdate'') = None
           \<and> map_of [(S ''phone'', PStr (S ''5''))] (S ''hs_lastmodifieddate'') = None"
    by (simp add: S_def cp_def)
  have c: "\<exists>nps. map_of [(S ''id'', PStr (S ''p'')), (S ''object'', PStr (S ''page'')),
                      (S ''properties'',
                       PDict [(S ''Tags'', PDict [(S ''type'', PStr (S ''multi_select''))])])]
                    (S ''properties'') = Some (PDict nps)
               \<and> (\<forall>p \<in> set (map snd nps).
                     \<exists>d. p = PDict d \<and> dict_get d (S ''type'') PNone \<noteq> PStr (S ''title''))"
    by (simp add: dict_get_def S_def cp_def)
  have d: "map_of [(S ''id'', PStr (S ''p'')), (S ''object'', PStr (S ''page'')),
                      (S ''properties'',
                       PDict [(S ''Tags'', PDict [(S ''type'', PStr (S ''multi_select''))])])]
             (S ''object'') = Some (PStr (S ''page''))"
    by (simp add: S_def cp_def)
  have e: "S ''properties'' \<notin> fst ` set [(S ''id'', PStr (S ''p''))]"
          "map_of [(S ''id'', PStr (S ''p''))] (S ''object'') = None"
    by (simp_all add: S_def cp_def)
  show ?thesis
    unfolding capitalize_page [symmetric]
    using name_fallback [where kvs = "[(S ''id'', PStr (S ''1'')),
                      (S ''properties'', PDict [(S ''phone'', PStr (S ''5''))])]"
          and ps = "[(S ''phone'', PStr (S ''5''))]" and E = utc_platform
          and nkvs = "[(S ''id'', PStr (S ''p'')), (S ''object'', PStr (S ''page'')),
                      (S ''properties'',
                       PDict [(S ''Tags'', PDict [(S ''type'', PStr (S ''multi_select''))])])]"]
        name_fallback [where kvs = "[]" and ps = "[]" and E = utc_platform
          and nkvs = "[(S ''id'', PStr (S ''p''))]"]
        a b c d e
    by blast
qed

subsection \<open>The three fetches of \<^verbatim>\<open>get_items_hubspot\<close>\<close>

















subsection \<open>Time stamps\<close>





lemma timeval_example:
  "timeval_of_float (Fin False 7130316800000000 (- 22)) = Inr (1700000000, 0)"
  by (simp add: timeval_of_float_def float_trunc_def Let_def double_of_ratio_def
        round_half_even_def)


lemma civil_examples:
  "civil_from_days 19673 = (2023, 11, 12)"
  "civil_from_days 19674 = (2023, 11, 13)"
  "civil_from_days 19675 = (2023, 11, 14)"
  unfolding civil_from_days_def Let_def by simp_all

lemma local_year_example:
  assumes "\<bar>utcoffset E 1699913600\<bar> \<le> 86400"
  shows "local_year E 1699913600 = 2023"
proof -
  define z where "z = (1699913600 + utcoffset E 1699913600) div 86400"
  have "z = 19673 \<or> z = 19674 \<or> z = 19675"
    using assms unfolding z_def by linarith
  then have "fst (civil_from_days z) = 2023"
    using civil_examples by auto
  then show ?thesis
    by (simp add: local_year_def z_def)
qed










text \<open>
  On a host whose local time is not UTC the fields of the naive \<^verbatim>\<open>datetime\<close> are
  those of the local time of the same instant: five hours behind UTC they read
  17:13:20.
\<close>

lemma fromtimestamp_behind_utc:
  assumes "utcoffset E 1700000000 = - 18000" and "\<bar>utcoffset E 1699913600\<bar> \<le> 86400"
  shows "fromtimestamp E (Fin False 7130316800000000 (- 22))
           = Inr ((known_time None)\<lparr>hour := 17\<rparr>)"
  using assms local_year_example [of E]
  by (simp add: fromtimestamp_def timeval_example civil_examples known_time_def)



end
